theory Spec2Isabelle
  imports Main "HOL-Library.Sublist"
begin

section \<open>JavaScript values\<close>

text \<open>
  The adapter hands the tool handlers whatever the upstream API answered, so a response is
  a dynamically typed value. A number is an integer that a JavaScript number represents
  exactly and prints in plain decimal notation; fractions, infinities and NaN are not
  values of this model. An object is the list of its own properties, looked up by the
  first entry for a key; no value is a function. Strings are byte strings (UTF-8).
\<close>

datatype json =
    JUndefined
  | JNull
  | JBool bool
  | JNum int
  | JStr string
  | JArr "json list"
  | JObj "(string \<times> json) list"

text \<open>
  A thrown value is an instance of \<open>Error\<close> (with its message) or any other value;
  \<open>error instanceof Error\<close> tells them apart. An evaluation that may throw returns
  \<open>thrown + 'a\<close>, and \<open>and_then\<close> sequences two of them.
\<close>

datatype thrown = Error string | Thrown json

definition and_then :: "thrown + 'a \<Rightarrow> ('a \<Rightarrow> thrown + 'b) \<Rightarrow> thrown + 'b" where
  "and_then m f = (case m of Inl e \<Rightarrow> Inl e | Inr v \<Rightarrow> f v)"

text \<open>Truthiness, and \<open>v || d\<close>.\<close>

fun truthy :: "json \<Rightarrow> bool" where
  "truthy JUndefined = False"
| "truthy JNull = False"
| "truthy (JBool b) = b"
| "truthy (JNum n) = (n \<noteq> 0)"
| "truthy (JStr s) = (s \<noteq> [])"
| "truthy (JArr xs) = True"
| "truthy (JObj kvs) = True"

definition or_value :: "thrown + json \<Rightarrow> json \<Rightarrow> thrown + json" where
  "or_value m d = and_then m (\<lambda>v. Inr (if truthy v then v else d))"

text \<open>A string that may be undefined, interpolated into a template literal.\<close>

definition interpolate :: "string option \<Rightarrow> string" where
  "interpolate s = (case s of None \<Rightarrow> ''undefined'' | Some v \<Rightarrow> v)"

text \<open>\<open>s || d\<close> for a string that may be undefined: undefined and the empty string are falsy.\<close>

definition or_else :: "string option \<Rightarrow> string \<Rightarrow> string" where
  "or_else s d = (case s of None \<Rightarrow> d | Some v \<Rightarrow> if v = [] then d else v)"

text \<open>The length of a string in UTF-16 code units, from its UTF-8 bytes.\<close>

definition utf16_length :: "string \<Rightarrow> nat" where
  "utf16_length s =
     length (filter (\<lambda>c. \<not> (128 \<le> (of_char c :: nat) \<and> (of_char c :: nat) < 192)) s)
     + length (filter (\<lambda>c. 240 \<le> (of_char c :: nat)) s)"

text \<open>
  The property read \<open>v.k\<close>, for the names that the handlers read. Reading from undefined
  or null throws a \<open>TypeError\<close> (the messages are those of V8). Apart from \<open>length\<close> on
  arrays and strings, none of these names is defined by a prototype, so only an own
  property of an object yields a value other than undefined.
\<close>

fun get :: "json \<Rightarrow> string \<Rightarrow> thrown + json" where
  "get JUndefined k =
     Inl (Error (''Cannot read properties of undefined (reading '' @ [CHR 0x27] @ k
                 @ [CHR 0x27] @ '')''))"
| "get JNull k =
     Inl (Error (''Cannot read properties of null (reading '' @ [CHR 0x27] @ k
                 @ [CHR 0x27] @ '')''))"
| "get (JObj kvs) k = Inr (case map_of kvs k of None \<Rightarrow> JUndefined | Some v \<Rightarrow> v)"
| "get (JArr xs) k = Inr (if k = ''length'' then JNum (int (length xs)) else JUndefined)"
| "get (JStr s) k = Inr (if k = ''length'' then JNum (int (utf16_length s)) else JUndefined)"
| "get (JBool b) k = Inr JUndefined"
| "get (JNum n) k = Inr JUndefined"

text \<open>Decimal notation of an integer.\<close>

function show_digits :: "int \<Rightarrow> string" where
  "show_digits n =
     (if n < 10 then [''0123456789'' ! nat n]
      else show_digits (n div 10) @ [''0123456789'' ! nat (n mod 10)])"
  by pat_completeness auto
termination
  by (relation "measure nat") auto

declare show_digits.simps [simp del]

definition show_int :: "int \<Rightarrow> string" where
  "show_int n = (if n < 0 then ''-'' @ show_digits (- n) else show_digits n)"

fun join :: "string \<Rightarrow> string list \<Rightarrow> string" where
  "join sep [] = []"
| "join sep [s] = s"
| "join sep (s # t # ss) = s @ sep @ join sep (t # ss)"

text \<open>
  \<open>ToString\<close>, as applied to the substitutions of a template literal. An array is the
  join of its elements by commas, undefined and null elements being empty. An object is
  \<open>[object Object]\<close>, unless it has an own property \<open>toString\<close>, which is not callable:
  then the conversion throws a \<open>TypeError\<close>.
\<close>

fun to_string :: "json \<Rightarrow> thrown + string"
  and element_strings :: "json list \<Rightarrow> thrown + string list" where
  "to_string JUndefined = Inr ''undefined''"
| "to_string JNull = Inr ''null''"
| "to_string (JBool b) = Inr (if b then ''true'' else ''false'')"
| "to_string (JNum n) = Inr (show_int n)"
| "to_string (JStr s) = Inr s"
| "to_string (JArr xs) =
     (case element_strings xs of Inl e \<Rightarrow> Inl e | Inr ss \<Rightarrow> Inr (join '','' ss))"
| "to_string (JObj kvs) =
     (if map_of kvs ''toString'' = None then Inr ''[object Object]''
      else Inl (Error ''Cannot convert object to primitive value''))"
| "element_strings [] = Inr []"
| "element_strings (x # xs) =
     (case (if x = JUndefined \<or> x = JNull then Inr [] else to_string x) of
        Inl e \<Rightarrow> Inl e
      | Inr s \<Rightarrow> (case element_strings xs of Inl e \<Rightarrow> Inl e | Inr ss \<Rightarrow> Inr (s # ss)))"

subsection \<open>Numbers read from strings\<close>

text \<open>The white space and line terminators that \<open>parseInt\<close> and \<open>ToNumber\<close> skip.\<close>

definition white_space :: "string list" where
  "white_space =
     [[CHR 0x09], [CHR 0x0A], [CHR 0x0B], [CHR 0x0C], [CHR 0x0D], [CHR 0x20],
      [CHR 0xC2, CHR 0xA0], [CHR 0xE1, CHR 0x9A, CHR 0x80],
      [CHR 0xE2, CHR 0x80, CHR 0x80], [CHR 0xE2, CHR 0x80, CHR 0x81],
      [CHR 0xE2, CHR 0x80, CHR 0x82], [CHR 0xE2, CHR 0x80, CHR 0x83],
      [CHR 0xE2, CHR 0x80, CHR 0x84], [CHR 0xE2, CHR 0x80, CHR 0x85],
      [CHR 0xE2, CHR 0x80, CHR 0x86], [CHR 0xE2, CHR 0x80, CHR 0x87],
      [CHR 0xE2, CHR 0x80, CHR 0x88], [CHR 0xE2, CHR 0x80, CHR 0x89],
      [CHR 0xE2, CHR 0x80, CHR 0x8A], [CHR 0xE2, CHR 0x80, CHR 0xA8],
      [CHR 0xE2, CHR 0x80, CHR 0xA9], [CHR 0xE2, CHR 0x80, CHR 0xAF],
      [CHR 0xE2, CHR 0x81, CHR 0x9F], [CHR 0xE3, CHR 0x80, CHR 0x80],
      [CHR 0xEF, CHR 0xBB, CHR 0xBF]]"

fun strip :: "string list \<Rightarrow> string \<Rightarrow> string" where
  "strip ws [] = []"
| "strip ws (c # cs) =
     (case find (\<lambda>w. w \<noteq> [] \<and> prefix w (c # cs)) ws of
        None \<Rightarrow> c # cs
      | Some w \<Rightarrow> strip ws (drop (length w - 1) cs))"

definition trim_start :: "string \<Rightarrow> string" where
  "trim_start s = strip white_space s"

definition trim :: "string \<Rightarrow> string" where
  "trim s = rev (strip (map rev white_space) (rev (trim_start s)))"

definition digit_of :: "char \<Rightarrow> nat option" where
  "digit_of c =
     (let n = of_char c :: nat
      in if 48 \<le> n \<and> n \<le> 57 then Some (n - 48)
         else if 97 \<le> n \<and> n \<le> 122 then Some (n - 87)
         else if 65 \<le> n \<and> n \<le> 90 then Some (n - 55)
         else None)"

definition is_digit :: "nat \<Rightarrow> char \<Rightarrow> bool" where
  "is_digit R c = (case digit_of c of None \<Rightarrow> False | Some d \<Rightarrow> d < R)"

definition digits_value :: "nat \<Rightarrow> string \<Rightarrow> int" where
  "digits_value R ds =
     foldl (\<lambda>a c. a * int R + (case digit_of c of None \<Rightarrow> 0 | Some d \<Rightarrow> int d)) 0 ds"

text \<open>
  \<open>parseInt(inputString)\<close> without a radix: leading white space, a sign, the prefix
  \<open>0x\<close> for radix 16, then the longest run of digits; \<open>None\<close> stands for NaN. The
  value is the exact integer; JavaScript rounds it to a double, which changes it only
  beyond \<open>2^53\<close>, outside the numbers of this model.
\<close>

definition parseInt :: "string \<Rightarrow> int option" where
  "parseInt inputString =
     (let S = trim_start inputString;
          sign = (if take 1 S = ''-'' then - 1 else 1);
          S1 = (if take 1 S = ''+'' \<or> take 1 S = ''-'' then drop 1 S else S);
          hex = (take 2 S1 = ''0x'' \<or> take 2 S1 = ''0X'');
          R = (if hex then 16 else 10);
          Z = takeWhile (is_digit R) (if hex then drop 2 S1 else S1)
      in if Z = [] then None else Some (sign * digits_value R Z))"

text \<open>
  Whether \<open>ToNumber\<close> of a string is greater than zero: the trimmed string is a numeric
  literal (binary, octal or hexadecimal digits after their prefix; or an optional sign,
  then \<open>Infinity\<close> or decimal digits with an optional fraction and exponent) that does
  not round to zero.
\<close>

definition non_decimal_positive :: "nat \<Rightarrow> string \<Rightarrow> bool" where
  "non_decimal_positive R ds =
     (ds \<noteq> [] \<and> list_all (is_digit R) ds \<and> list_ex (\<lambda>c. c \<noteq> CHR ''0'') ds)"

definition decimal_positive :: "string \<Rightarrow> bool" where
  "decimal_positive u =
     (let ip = takeWhile (is_digit 10) u;
          r1 = dropWhile (is_digit 10) u;
          has_dot = (take 1 r1 = ''.'');
          fp = (if has_dot then takeWhile (is_digit 10) (drop 1 r1) else []);
          r2 = (if has_dot then dropWhile (is_digit 10) (drop 1 r1) else r1);
          has_exp = (take 1 r2 = ''e'' \<or> take 1 r2 = ''E'');
          r3 = drop 1 r2;
          eneg = (take 1 r3 = ''-'');
          ed = (if take 1 r3 = ''+'' \<or> eneg then drop 1 r3 else r3);
          wellformed = ((ip \<noteq> [] \<or> fp \<noteq> [])
            \<and> (if has_exp then ed \<noteq> [] \<and> list_all (is_digit 10) ed else r2 = []));
          m = digits_value 10 (ip @ fp);
          e = (if has_exp then nat (digits_value 10 ed) else 0);
          up = (if eneg then 0 else e);
          down = length fp + (if eneg then e else 0)
      in wellformed \<and> 10 ^ down < m * 2 ^ 1075 * 10 ^ up)"

definition string_gt_zero :: "string \<Rightarrow> bool" where
  "string_gt_zero str =
     (let s = trim str
      in if take 2 s = ''0x'' \<or> take 2 s = ''0X'' then non_decimal_positive 16 (drop 2 s)
         else if take 2 s = ''0o'' \<or> take 2 s = ''0O'' then non_decimal_positive 8 (drop 2 s)
         else if take 2 s = ''0b'' \<or> take 2 s = ''0B'' then non_decimal_positive 2 (drop 2 s)
         else if take 1 s = ''-'' then False
         else (let u = (if take 1 s = ''+'' then drop 1 s else s)
               in u = ''Infinity'' \<or> decimal_positive u))"

text \<open>\<open>v > 0\<close>: the operand is converted to a primitive, then to a number.\<close>

definition gt_zero :: "json \<Rightarrow> thrown + bool" where
  "gt_zero v =
     (case v of
        JUndefined \<Rightarrow> Inr False
      | JNull \<Rightarrow> Inr False
      | JBool b \<Rightarrow> Inr b
      | JNum n \<Rightarrow> Inr (0 < n)
      | JStr s \<Rightarrow> Inr (string_gt_zero s)
      | _ \<Rightarrow> and_then (to_string v) (\<lambda>s. Inr (string_gt_zero s)))"

subsection \<open>Building the text of a result\<close>

text \<open>
  A handler builds its text by appending template literals in order. Each piece is a
  literal text or a substitution that may throw; the first piece that throws ends the
  evaluation with its exception.
\<close>

fun concat_all :: "(thrown + string) list \<Rightarrow> thrown + string" where
  "concat_all [] = Inr []"
| "concat_all (p # ps) =
     (case p of
        Inl e \<Rightarrow> Inl e
      | Inr s \<Rightarrow> (case concat_all ps of Inl e \<Rightarrow> Inl e | Inr t \<Rightarrow> Inr (s @ t)))"

definition lit :: "string \<Rightarrow> thrown + string" where
  "lit s = Inr s"

definition interp :: "thrown + json \<Rightarrow> thrown + string" where
  "interp m = and_then m to_string"

text \<open>
  \<open>v.forEach(callback)\<close>, where each call of the callback appends to the text. Only an
  array has a callable \<open>forEach\<close>; \<open>name\<close> is the expression that V8 quotes in the
  message of the \<open>TypeError\<close>.
\<close>

definition forEach ::
  "string \<Rightarrow> json \<Rightarrow> (json \<Rightarrow> nat \<Rightarrow> thrown + string) \<Rightarrow> thrown + string" where
  "forEach name v callback =
     (case v of
        JArr xs \<Rightarrow> concat_all (map (\<lambda>(x, index). callback x index) (zip xs [0..<length xs]))
      | _ \<Rightarrow> and_then (get v ''forEach'')
               (\<lambda>f. Inl (Error (name @ ''.forEach is not a function''))))"

section \<open>The tool handlers (index.ts)\<close>

text \<open>
  The module \<open>./cmp_client.js\<close> is not part of the sources. The handlers are given its
  behaviour: the four queries of the client, each returning the upstream response or
  throwing, the client's \<open>formatDataUsage\<close>, and the three label functions
  \<open>getStateName\<close>, \<open>getProfileStatusName\<close> and \<open>getProfileTypeName\<close> (the
  fields \<open>stateName\<close>, \<open>profileStatusName\<close> and \<open>profileTypeName\<close>). A query
  that never answers is not modelled.
\<close>

record cmp_module =
  querySimList :: "json \<Rightarrow> thrown + json"
  querySimDetail :: "string \<Rightarrow> thrown + json"
  querySimMonthData :: "json \<Rightarrow> thrown + json"
  queryEuiccPage :: "json \<Rightarrow> thrown + json"
  formatDataUsage :: "json \<Rightarrow> thrown + string"
  stateName :: "json \<Rightarrow> thrown + string"
  profileStatusName :: "json \<Rightarrow> thrown + string"
  profileTypeName :: "json \<Rightarrow> thrown + string"

text \<open>The result of a tool: \<open>{ content: [{ type: "text", text }] }\<close>.\<close>

record content_block =
  type :: string
  "text" :: string

record tool_result =
  content :: "content_block list"

definition text_result :: "string \<Rightarrow> tool_result" where
  "text_result t = \<lparr>content = [\<lparr>type = ''text'', text = t\<rparr>]\<rparr>"

text \<open>\<open>error instanceof Error ? error.message : "Unknown error"\<close>.\<close>

definition error_message :: "thrown \<Rightarrow> string" where
  "error_message error = (case error of Error message \<Rightarrow> message | Thrown v \<Rightarrow> ''Unknown error'')"

text \<open>The glyphs of the messages, as UTF-8.\<close>

definition cross_mark :: string where
  "cross_mark = [CHR 0xE2, CHR 0x9D, CHR 0x8C]"

definition bar_chart :: string where
  "bar_chart = [CHR 0xF0, CHR 0x9F, CHR 0x93, CHR 0x8A]"

definition mobile_phone :: string where
  "mobile_phone = [CHR 0xF0, CHR 0x9F, CHR 0x93, CHR 0xB1]"

definition satellite_antenna :: string where
  "satellite_antenna = [CHR 0xF0, CHR 0x9F, CHR 0x93, CHR 0xA1]"

definition magnifying_glass :: string where
  "magnifying_glass = [CHR 0xF0, CHR 0x9F, CHR 0x94, CHR 0x8D]"

definition clipboard :: string where
  "clipboard = [CHR 0xF0, CHR 0x9F, CHR 0x93, CHR 0x8B]"

definition package :: string where
  "package = [CHR 0xF0, CHR 0x9F, CHR 0x93, CHR 0xA6]"

definition tee :: string where
  "tee = [CHR 0xE2, CHR 0x94, CHR 0x9C, CHR 0xE2, CHR 0x94, CHR 0x80]"

definition corner :: string where
  "corner = [CHR 0xE2, CHR 0x94, CHR 0x94, CHR 0xE2, CHR 0x94, CHR 0x80]"

text \<open>The else branch shared by the four handlers: \<open>Query failed: ${response.msg || "Unknown error"}\<close>.\<close>

definition query_failed :: "json \<Rightarrow> thrown + string" where
  "query_failed response =
     concat_all [lit (cross_mark @ '' Query failed: ''),
                 interp (or_value (get response ''msg'') (JStr ''Unknown error''))]"

subsection \<open>query_sim_list\<close>

text \<open>The callback of \<open>simList.forEach\<close>.\<close>

definition sim_entry :: "cmp_module \<Rightarrow> json \<Rightarrow> nat \<Rightarrow> thrown + string" where
  "sim_entry cmp sim index =
     concat_all
      [lit (''\<newline>'' @ show_int (int index + 1) @ ''. '' @ mobile_phone @ '' ICCID: ''),
       interp (or_value (get sim ''iccid'') (JStr ''N/A'')), lit ''\<newline>'',
       lit (''   '' @ tee @ '' IMSI: ''),
       interp (or_value (get sim ''imsi'') (JStr ''N/A'')), lit ''\<newline>'',
       lit (''   '' @ tee @ '' MSISDN: ''),
       interp (or_value (get sim ''msisdn'') (JStr ''N/A'')), lit ''\<newline>'',
       lit (''   '' @ tee @ '' Status: ''),
       and_then (or_value (get sim ''simState'') (JNum 0)) (stateName cmp), lit ''\<newline>'',
       lit (''   '' @ tee @ '' Card Type: ''),
       interp (or_value (get sim ''simType'') (JStr ''N/A'')), lit ''\<newline>'',
       lit (''   '' @ tee @ '' Enterprise: ''),
       interp (or_value (get sim ''enterprise'') (JStr ''N/A'')), lit ''\<newline>'',
       lit (''   '' @ tee @ '' Data Plan: ''),
       interp (or_value (get sim ''enterpriseDataPlan'') (JStr ''N/A'')), lit ''\<newline>'',
       lit (''   '' @ tee @ '' Activation Time: ''),
       interp (or_value (get sim ''activationTime'') (JStr ''N/A'')), lit ''\<newline>'',
       lit (''   '' @ tee @ '' Expiration Time: ''),
       interp (or_value (get sim ''expirationTime'') (JStr ''N/A'')), lit ''\<newline>'',
       lit (''   '' @ corner @ '' Label: ''),
       interp (or_value (get sim ''label'') (JStr ''None'')), lit ''\<newline>'']"

text \<open>The branch taken when \<open>response.code === 200\<close>.\<close>

definition sim_list_success :: "cmp_module \<Rightarrow> json \<Rightarrow> thrown + string" where
  "sim_list_success cmp response =
     and_then (get response ''data'') (\<lambda>data.
     and_then (or_value (get data ''list'') (JArr [])) (\<lambda>simList.
       concat_all
        [lit (bar_chart @ '' SIM Query Results\<newline>''),
         lit (tee @ '' Current Page: ''), interp (get data ''current''), lit ''\<newline>'',
         lit (tee @ '' Page Size: ''), interp (get data ''size''), lit ''\<newline>'',
         lit (tee @ '' Total Pages: ''), interp (get data ''pages''), lit ''\<newline>'',
         lit (tee @ '' Total Records: ''), interp (get data ''total''), lit ''\<newline>\<newline>'',
         and_then (and_then (get simList ''length'') gt_zero) (\<lambda>found.
           if found then
             concat_all
              [lit (magnifying_glass @ '' Found ''), interp (get simList ''length''),
               lit '' SIM cards:\<newline>'',
               forEach ''simList'' simList (sim_entry cmp)]
           else lit (cross_mark @ '' No SIM cards found matching the criteria''))]))"

definition query_sim_list_body :: "cmp_module \<Rightarrow> json \<Rightarrow> thrown + string" where
  "query_sim_list_body cmp params =
     and_then (querySimList cmp params) (\<lambda>response.
     and_then (get response ''code'') (\<lambda>code.
       if code = JNum 200 then sim_list_success cmp response
       else query_failed response))"

text \<open>The handler: the body inside \<open>try\<close>, and the \<open>catch\<close> around it.\<close>

definition query_sim_list :: "cmp_module \<Rightarrow> json \<Rightarrow> tool_result" where
  "query_sim_list cmp params =
     (case query_sim_list_body cmp params of
        Inr result \<Rightarrow> text_result result
      | Inl error \<Rightarrow>
          text_result (cross_mark @ '' Failed to query SIM list: '' @ error_message error))"

subsection \<open>query_sim_detail\<close>

text \<open>Lines 184 to 190: the number handed to \<open>formatDataUsage\<close>.\<close>

definition data_usage :: "json \<Rightarrow> thrown + json" where
  "data_usage sim =
     and_then (or_value (get sim ''usedDataOfCurrentPeriod'') (JNum 0)) (\<lambda>dataUsage.
       case dataUsage of
         JStr s \<Rightarrow> Inr (JNum (case parseInt s of None \<Rightarrow> 0 | Some n \<Rightarrow> n))
       | _ \<Rightarrow> Inr dataUsage)"

definition sim_detail_success :: "cmp_module \<Rightarrow> json \<Rightarrow> thrown + string" where
  "sim_detail_success cmp response =
     and_then (get response ''data'') (\<lambda>sim.
       concat_all
        [lit (mobile_phone @ '' SIM Card Details\<newline>''),
         lit (tee @ '' SIM ID: ''),
         interp (or_value (get sim ''simId'') (JStr ''N/A'')), lit ''\<newline>'',
         lit (tee @ '' ICCID: ''),
         interp (or_value (get sim ''iccid'') (JStr ''N/A'')), lit ''\<newline>'',
         lit (tee @ '' MSISDN: ''),
         interp (or_value (get sim ''msisdn'') (JStr ''N/A'')), lit ''\<newline>'',
         lit (tee @ '' IMEI: ''),
         interp (or_value (get sim ''imei'') (JStr ''N/A'')), lit ''\<newline>'',
         lit (tee @ '' IMSI: ''),
         interp (or_value (get sim ''imsi'') (JStr ''N/A'')), lit ''\<newline>'',
         lit (tee @ '' Enterprise: ''),
         interp (or_value (get sim ''enterprise'') (JStr ''N/A'')), lit ''\<newline>'',
         lit (tee @ '' Label: ''),
         interp (or_value (get sim ''label'') (JStr ''None'')), lit ''\<newline>'',
         lit (tee @ '' Status: ''),
         and_then (or_value (get sim ''simState'') (JNum 0)) (stateName cmp), lit ''\<newline>'',
         lit (tee @ '' State Change Reason: ''),
         interp (or_value (get sim ''simStateChangeReason'') (JStr ''N/A'')), lit ''\<newline>'',
         lit (tee @ '' Country/Region: ''),
         interp (or_value (get sim ''countryRegion'') (JStr ''N/A'')), lit ''\<newline>'',
         lit (tee @ '' Operator Network: ''),
         interp (or_value (get sim ''operatorNetwork'') (JStr ''N/A'')), lit ''\<newline>'',
         lit (tee @ '' Enterprise Data Plan: ''),
         interp (or_value (get sim ''enterpriseDataPlan'') (JStr ''N/A'')), lit ''\<newline>'',
         lit (tee @ '' Network Type: ''),
         interp (or_value (get sim ''networkType'') (JStr ''N/A'')), lit ''\<newline>'',
         lit (tee @ '' Card Type: ''),
         interp (or_value (get sim ''simType'') (JStr ''N/A'')), lit ''\<newline>'',
         lit (tee @ '' APN: ''),
         interp (or_value (get sim ''apn'') (JStr ''N/A'')), lit ''\<newline>'',
         lit (tee @ '' RAT: ''),
         interp (or_value (get sim ''rat'') (JStr ''N/A'')), lit ''\<newline>'',
         lit (tee @ '' Initial Time: ''),
         interp (or_value (get sim ''initialTime'') (JStr ''N/A'')), lit ''\<newline>'',
         lit (tee @ '' Activation Time: ''),
         interp (or_value (get sim ''activationTime'') (JStr ''N/A'')), lit ''\<newline>'',
         lit (tee @ '' Expiration Time: ''),
         interp (or_value (get sim ''expirationTime'') (JStr ''N/A'')), lit ''\<newline>'',
         lit (tee @ '' Last Session Time: ''),
         interp (or_value (get sim ''lastSessionTime'') (JStr ''N/A'')), lit ''\<newline>'',
         lit (corner @ '' Current Period Data Usage: ''),
         and_then (data_usage sim) (formatDataUsage cmp), lit ''\<newline>''])"

definition query_sim_detail_body :: "cmp_module \<Rightarrow> string \<Rightarrow> thrown + string" where
  "query_sim_detail_body cmp iccid =
     and_then (querySimDetail cmp iccid) (\<lambda>response.
     and_then (get response ''code'') (\<lambda>code.
       if code = JNum 200 then sim_detail_success cmp response
       else query_failed response))"

definition query_sim_detail :: "cmp_module \<Rightarrow> string \<Rightarrow> tool_result" where
  "query_sim_detail cmp iccid =
     (case query_sim_detail_body cmp iccid of
        Inr result \<Rightarrow> text_result result
      | Inl error \<Rightarrow>
          text_result (cross_mark @ '' Failed to query SIM details: '' @ error_message error))"

subsection \<open>query_sim_usage\<close>

text \<open>\<open>typeof v === "object"\<close>.\<close>

definition typeof_object :: "json \<Rightarrow> bool" where
  "typeof_object v = (case v of JNull \<Rightarrow> True | JArr xs \<Rightarrow> True | JObj kvs \<Rightarrow> True | _ \<Rightarrow> False)"

text \<open>
  The test of lines 233 to 236 and 320 to 323:
  \<open>response.code === 200 || (response.data && typeof response.data === "object")\<close>.
\<close>

definition code_or_data :: "json \<Rightarrow> thrown + bool" where
  "code_or_data response =
     and_then (get response ''code'') (\<lambda>code.
       if code = JNum 200 then Inr True
       else and_then (get response ''data'') (\<lambda>data.
              Inr (truthy data \<and> typeof_object data)))"

text \<open>
  \<open>typeMap[key]\<close>, as the text that the value found interpolates to: one of the three own
  entries of the object literal, or a member inherited from \<open>Object.prototype\<close>; \<open>None\<close>
  when the lookup yields undefined.
\<close>

definition typeMap :: "string \<Rightarrow> string option" where
  "typeMap key =
     (if key = ''1'' then Some ''Activation Period Plan''
      else if key = ''2'' then Some ''Test Period Plan''
      else if key = ''3'' then Some ''Data Package''
      else if key = ''__proto__'' then Some ''[object Object]''
      else if key = ''constructor'' then Some ''function Object() { [native code] }''
      else if key \<in> set [''__defineGetter__'', ''__defineSetter__'', ''hasOwnProperty'',
                          ''__lookupGetter__'', ''__lookupSetter__'', ''isPrototypeOf'',
                          ''propertyIsEnumerable'', ''toString'', ''valueOf'',
                          ''toLocaleString'']
      then Some (''function '' @ key @ ''() { [native code] }'')
      else None)"

text \<open>The callback of \<open>usage.dataUsageDetails.forEach\<close>.\<close>

definition usage_entry :: "json \<Rightarrow> nat \<Rightarrow> thrown + string" where
  "usage_entry detail index =
     and_then (and_then (get detail ''type'') to_string) (\<lambda>key.
     and_then (case typeMap key of
                 Some name \<Rightarrow> Inr name
               | None \<Rightarrow> concat_all [lit ''Type '', interp (get detail ''type'')]) (\<lambda>typeName.
       concat_all
        [lit (''\<newline>'' @ show_int (int index + 1) @ ''. '' @ package @ '' ''),
         interp (get detail ''orderName''), lit ''\<newline>'',
         lit (''   '' @ tee @ '' Type: ''), lit typeName, lit ''\<newline>'',
         lit (''   '' @ tee @ '' Allowance: ''),
         interp (get detail ''dataAllowance''), lit '' MB\<newline>'',
         lit (''   '' @ tee @ '' Used: ''),
         interp (get detail ''dataUsage''), lit '' MB\<newline>'',
         lit (''   '' @ corner @ '' Outside Region: ''),
         interp (get detail ''outsideRegionDataUsage''), lit '' MB\<newline>'']))"

definition sim_usage_success :: "json \<Rightarrow> thrown + string" where
  "sim_usage_success response =
     and_then (get response ''data'') (\<lambda>usage.
       concat_all
        [lit (bar_chart @ '' SIM Usage Details\<newline>''),
         lit (tee @ '' ICCID: ''), interp (get usage ''iccid''), lit ''\<newline>'',
         lit (tee @ '' Month: ''), interp (get usage ''month''), lit ''\<newline>'',
         lit (tee @ '' Total Data Allowance: ''),
         interp (get usage ''totalDataAllowance''), lit '' MB\<newline>'',
         lit (tee @ '' Total Data Usage: ''),
         interp (get usage ''totalDataUsage''), lit '' MB\<newline>'',
         lit (tee @ '' Remaining Data: ''),
         interp (get usage ''remainingData''), lit '' MB\<newline>'',
         lit (tee @ '' Outside Region Usage: ''),
         interp (get usage ''outsideRegionDataUsage''), lit '' MB\<newline>\<newline>'',
         and_then (get usage ''dataUsageDetails'') (\<lambda>details.
         and_then (if truthy details then and_then (get details ''length'') gt_zero
                   else Inr False) (\<lambda>found.
           if found then
             concat_all
              [lit (clipboard @ '' Usage Details:\<newline>''),
               forEach ''usage.dataUsageDetails'' details usage_entry]
           else lit (cross_mark @ '' No detailed usage data available'')))])"

definition query_sim_usage_body :: "cmp_module \<Rightarrow> string \<Rightarrow> string \<Rightarrow> thrown + string" where
  "query_sim_usage_body cmp iccid month =
     and_then (querySimMonthData cmp (JObj [(''iccid'', JStr iccid), (''month'', JStr month)]))
       (\<lambda>response.
     and_then (code_or_data response) (\<lambda>success.
       if success then sim_usage_success response
       else query_failed response))"

definition query_sim_usage :: "cmp_module \<Rightarrow> string \<Rightarrow> string \<Rightarrow> tool_result" where
  "query_sim_usage cmp iccid month =
     (case query_sim_usage_body cmp iccid month of
        Inr result \<Rightarrow> text_result result
      | Inl error \<Rightarrow>
          text_result (cross_mark @ '' Failed to query SIM usage: '' @ error_message error))"

subsection \<open>query_euicc_list\<close>

text \<open>The callback of \<open>euiccList.forEach\<close>.\<close>

definition euicc_entry :: "cmp_module \<Rightarrow> json \<Rightarrow> nat \<Rightarrow> thrown + string" where
  "euicc_entry cmp euicc index =
     concat_all
      [lit (''\<newline>'' @ show_int (int index + 1) @ ''. '' @ mobile_phone
            @ '' eUICC Device\<newline>''),
       lit (''   '' @ tee @ '' eID: ''),
       interp (or_value (get euicc ''eid'') (JStr ''N/A'')), lit ''\<newline>'',
       lit (''   '' @ tee @ '' ICCID: ''),
       interp (or_value (get euicc ''iccid'') (JStr ''N/A'')), lit ''\<newline>'',
       lit (''   '' @ tee @ '' IMEI: ''),
       interp (or_value (get euicc ''imei'') (JStr ''N/A'')), lit ''\<newline>'',
       lit (''   '' @ tee @ '' Enterprise: ''),
       interp (or_value (get euicc ''enterpriseName'') (JStr ''N/A'')), lit ''\<newline>'',
       lit (''   '' @ tee @ '' Profile Number: ''),
       interp (or_value (get euicc ''profileNum'') (JStr ''N/A'')), lit ''\<newline>'',
       lit (''   '' @ tee @ '' Profile Status: ''),
       and_then (or_value (get euicc ''profileStatus'') (JNum 0)) (profileStatusName cmp),
       lit ''\<newline>'',
       lit (''   '' @ tee @ '' Profile Type: ''),
       and_then (or_value (get euicc ''profileType'') (JStr ''0'')) (profileTypeName cmp),
       lit ''\<newline>'',
       lit (''   '' @ corner @ '' Last Operation: ''),
       interp (or_value (get euicc ''lastOperateTime'') (JStr ''N/A'')), lit ''\<newline>'']"

definition euicc_list_success :: "cmp_module \<Rightarrow> json \<Rightarrow> thrown + string" where
  "euicc_list_success cmp response =
     and_then (get response ''data'') (\<lambda>inner.
     and_then (or_value (get inner ''data'') inner) (\<lambda>data.
     and_then (or_value (get data ''list'') (JArr [])) (\<lambda>euiccList.
       concat_all
        [lit (satellite_antenna @ '' eUICC List Results\<newline>''),
         lit (tee @ '' Request ID: ''),
         interp (or_value (get response ''reqId'') (JStr ''N/A'')), lit ''\<newline>'',
         lit (tee @ '' Current Page: ''),
         interp (or_value (get data ''current'') (JStr ''N/A'')), lit ''\<newline>'',
         lit (tee @ '' Page Size: ''),
         interp (or_value (get data ''size'') (JStr ''N/A'')), lit ''\<newline>'',
         lit (tee @ '' Total Pages: ''),
         interp (or_value (get data ''pages'') (JStr ''N/A'')), lit ''\<newline>'',
         lit (tee @ '' Total Records: ''),
         interp (or_value (get data ''total'') (JStr ''N/A'')), lit ''\<newline>\<newline>'',
         and_then (and_then (get euiccList ''length'') gt_zero) (\<lambda>found.
           if found then
             concat_all
              [lit (magnifying_glass @ '' Found ''), interp (get euiccList ''length''),
               lit '' eUICC devices:\<newline>'',
               forEach ''euiccList'' euiccList (euicc_entry cmp)]
           else lit (cross_mark @ '' No eUICC devices found matching the criteria''))])))"

definition query_euicc_list_body :: "cmp_module \<Rightarrow> json \<Rightarrow> thrown + string" where
  "query_euicc_list_body cmp params =
     and_then (queryEuiccPage cmp params) (\<lambda>response.
     and_then (code_or_data response) (\<lambda>success.
       if success then euicc_list_success cmp response
       else query_failed response))"

definition query_euicc_list :: "cmp_module \<Rightarrow> json \<Rightarrow> tool_result" where
  "query_euicc_list cmp params =
     (case query_euicc_list_body cmp params of
        Inr result \<Rightarrow> text_result result
      | Inl error \<Rightarrow>
          text_result (cross_mark @ '' Failed to query eUICC list: '' @ error_message error))"

subsection \<open>The registered tools\<close>

text \<open>An invocation that passed the schema of its tool, with the arguments the handler reads.\<close>

datatype tool_call =
    QuerySimList json
  | QuerySimDetail string
  | QuerySimUsage string string
  | QueryEuiccList json

fun tool_name :: "tool_call \<Rightarrow> string" where
  "tool_name (QuerySimList params) = ''query_sim_list''"
| "tool_name (QuerySimDetail iccid) = ''query_sim_detail''"
| "tool_name (QuerySimUsage iccid month) = ''query_sim_usage''"
| "tool_name (QueryEuiccList params) = ''query_euicc_list''"

fun call_tool :: "cmp_module \<Rightarrow> tool_call \<Rightarrow> tool_result" where
  "call_tool cmp (QuerySimList params) = query_sim_list cmp params"
| "call_tool cmp (QuerySimDetail iccid) = query_sim_detail cmp iccid"
| "call_tool cmp (QuerySimUsage iccid month) = query_sim_usage cmp iccid month"
| "call_tool cmp (QueryEuiccList params) = query_euicc_list cmp params"

section \<open>Session initialization (MyMCP.init)\<close>

text \<open>The three variables that \<open>init\<close> reads from the environment; each may be unset.\<close>

record Env =
  CMP_API_KEY :: "string option"
  CMP_API_SECRET :: "string option"
  CMP_API_ENDPOINT :: "string option"

text \<open>
  What \<open>init\<close> does to the world, in order: lines written to the console, the
  construction \<open>new CMPClient(key, secret, endpoint)\<close> assigned to \<open>this.cmpClient\<close>,
  and the registrations \<open>this.server.tool(name, schema, handler)\<close>. A registered tool is
  served by \<open>call_tool\<close>.
\<close>

datatype effect =
    ConsoleError "string list"
  | ConsoleLog "string list"
  | NewCMPClient string string string
  | ServerTool string

definition check_mark_button :: string where
  "check_mark_button = [CHR 0xE2, CHR 0x9C, CHR 0x85]"

definition link_glyph :: string where
  "link_glyph = [CHR 0xF0, CHR 0x9F, CHR 0x94, CHR 0x97]"

definition key_glyph :: string where
  "key_glyph = [CHR 0xF0, CHR 0x9F, CHR 0x94, CHR 0x91]"

definition locked_with_key :: string where
  "locked_with_key = [CHR 0xF0, CHR 0x9F, CHR 0x94, CHR 0x90]"

definition check_mark :: string where
  "check_mark = [CHR 0xE2, CHR 0x9C, CHR 0x93]"

definition ballot_x :: string where
  "ballot_x = [CHR 0xE2, CHR 0x9C, CHR 0x97]"

text \<open>
  \<open>init\<close> on a fresh session: the effects it had, and whether it returned or threw.
  The test \<open>!CMP_API_KEY || !CMP_API_SECRET\<close> holds when either variable is undefined or
  the empty string.
\<close>

definition init :: "Env \<Rightarrow> effect list \<times> (thrown + unit)" where
  "init env =
     (let endpoint = or_else (CMP_API_ENDPOINT env) ''https://cmp.acceleronix.io/gateway/openapi'';
          missing =
            ([ConsoleError [cross_mark @ '' Missing CMP API credentials'']],
             Inl (Error (''Missing required environment variables: CMP_API_KEY and ''
                         @ ''CMP_API_SECRET must be set in Cloudflare Workers.'')))
      in case CMP_API_KEY env of
           None \<Rightarrow> missing
         | Some key \<Rightarrow>
            (case CMP_API_SECRET env of
               None \<Rightarrow> missing
             | Some secret \<Rightarrow>
                 if key = [] \<or> secret = [] then missing
                 else
                   ([ConsoleLog [check_mark_button @ '' Environment variables loaded successfully''],
                     ConsoleLog [link_glyph @ '' CMP Endpoint:'', endpoint],
                     ConsoleLog [key_glyph @ '' API Key configured:'',
                                 if key = [] then ballot_x else check_mark],
                     ConsoleLog [locked_with_key @ '' API Secret configured:'',
                                 if secret = [] then ballot_x else check_mark],
                     NewCMPClient key secret endpoint,
                     ConsoleLog [satellite_antenna @ '' CMP Client initialized successfully''],
                     ServerTool ''query_sim_list'',
                     ServerTool ''query_sim_detail'',
                     ServerTool ''query_sim_usage'',
                     ServerTool ''query_euicc_list''],
                    Inr ())))"

text \<open>The adapters constructed and the tools registered by a run of \<open>init\<close>.\<close>

fun constructed :: "effect list \<Rightarrow> (string \<times> string \<times> string) list" where
  "constructed [] = []"
| "constructed (NewCMPClient k s e # es) = (k, s, e) # constructed es"
| "constructed (x # es) = constructed es"

fun registered :: "effect list \<Rightarrow> string list" where
  "registered [] = []"
| "registered (ServerTool name # es) = name # registered es"
| "registered (x # es) = registered es"

section \<open>The authorization pages (app.ts)\<close>

text \<open>
  The request that \<open>parseApproveFormBody\<close> recovers from the form. The handlers read
  \<open>redirect_uri\<close> (which may be undefined) and \<open>scope\<close>.
\<close>

record AuthRequest =
  clientId :: string
  redirect_uri :: "string option"
  scope :: "string list"
  state :: string

text \<open>The argument of the grant store's \<open>completeAuthorization\<close>.\<close>

record CompleteAuthorizationOptions =
  request :: AuthRequest
  userId :: string
  metadata :: "(string \<times> string) list"
  scope :: "string list"
  props :: "(string \<times> string) list"

text \<open>
  The templates of \<open>./utils\<close> are not part of the sources. A page is represented by the
  template call that produces it: \<open>Layout c t\<close> stands for \<open>layout(c, t)\<close>, and each
  constructor of \<open>page_content\<close> for the render function of the same name and its arguments.
\<close>

datatype page_content =
    LoggedInAuthorizeScreen "(string \<times> string) list" AuthRequest
  | LoggedOutAuthorizeScreen "(string \<times> string) list" AuthRequest
  | AuthorizationRejectedContent string
  | AuthorizationApprovedContent string

datatype body = Text string | Layout page_content string

text \<open>\<open>c.html(body, status)\<close> (status 200 when omitted) and \<open>c.redirect(location, status)\<close>.\<close>

datatype response = Html body nat | Redirect string nat

text \<open>\<open>String.prototype.includes\<close>: the argument occurs as a contiguous substring.\<close>

fun str_includes :: "string \<Rightarrow> string \<Rightarrow> bool" where
  "str_includes [] sub = (sub = [])"
| "str_includes (c # cs) sub = (prefix sub (c # cs) \<or> str_includes cs sub)"

text \<open>
  The test of lines 79 and 125:
  \<open>redirectUri && (redirectUri.includes('claude.ai') || redirectUri.includes('mcp'))\<close>.
\<close>

definition isProgrammaticClient :: "string option \<Rightarrow> bool" where
  "isProgrammaticClient redirectUri =
     (case redirectUri of
        None \<Rightarrow> False
      | Some u \<Rightarrow> u \<noteq> [] \<and> (str_includes u ''claude.ai'' \<or> str_includes u ''mcp''))"

subsection \<open>GET /authorize\<close>

definition oauthScopes :: "(string \<times> string) list" where
  "oauthScopes =
     [(''read_profile'', ''Read your basic profile information''),
      (''read_data'', ''Access your stored data''),
      (''write_data'', ''Create and modify your data'')]"

text \<open>
  The body of the handler as a function of its local constant \<open>isLoggedIn\<close> and of the
  outcome of \<open>parseAuthRequest\<close>, whose exception the handler does not catch.
\<close>

definition authorize_screen :: "bool \<Rightarrow> thrown + AuthRequest \<Rightarrow> thrown + response" where
  "authorize_screen isLoggedIn parsed =
     (case parsed of
        Inl e \<Rightarrow> Inl e
      | Inr oauthReqInfo \<Rightarrow>
          if isLoggedIn
          then Inr (Html (Layout (LoggedInAuthorizeScreen oauthScopes oauthReqInfo)
                      ''MCP Remote Auth Demo - Authorization'') 200)
          else Inr (Html (Layout (LoggedOutAuthorizeScreen oauthScopes oauthReqInfo)
                      ''MCP Remote Auth Demo - Authorization'') 200))"

text \<open>Line 34: \<open>const isLoggedIn = true\<close>.\<close>

definition isLoggedIn :: bool where
  "isLoggedIn = True"

definition authorize :: "thrown + AuthRequest \<Rightarrow> thrown + response" where
  "authorize parsed = authorize_screen isLoggedIn parsed"

subsection \<open>POST /approve\<close>

text \<open>What \<open>parseApproveFormBody\<close> returns; every field may be missing.\<close>

record approve_form =
  action :: "string option"
  oauthReqInfo :: "AuthRequest option"
  email :: "string option"
  password :: "string option"

text \<open>
  The handler, given the grant store's \<open>completeAuthorization\<close>. It returns the calls it
  made to the store, in order, and its outcome: a response, or the exception of the store,
  which it does not catch.
\<close>

definition approve ::
  "(CompleteAuthorizationOptions \<Rightarrow> thrown + string) \<Rightarrow> approve_form
     \<Rightarrow> CompleteAuthorizationOptions list \<times> (thrown + response)" where
  "approve completeAuthorization form =
     (case oauthReqInfo form of
        None \<Rightarrow> ([], Inr (Html (Text ''INVALID LOGIN'') 401))
      | Some req \<Rightarrow>
          if action form = Some ''reject'' then
            (let redirectUri = redirect_uri req;
                 errorRedirect = interpolate redirectUri
                   @ ''?error=access_denied&error_description=User+denied+authorization''
             in if isProgrammaticClient redirectUri
                then ([], Inr (Redirect errorRedirect 302))
                else ([], Inr (Html (Layout (AuthorizationRejectedContent ''/'')
                                ''CMP MCP Server - Authorization Status'') 200)))
          else if action form = Some ''login_approve'' \<and> False then
            ([], Inr (Html (Layout (AuthorizationRejectedContent ''/'')
                        ''CMP MCP Server - Authorization Status'') 200))
          else
            (let opts = \<lparr>request = req,
                         userId = or_else (email form) ''user@example.com'',
                         metadata = [(''label'', ''CMP MCP User'')],
                         scope = AuthRequest.scope req,
                         props = [(''userEmail'', or_else (email form) ''user@example.com'')]\<rparr>
             in case completeAuthorization opts of
                  Inl e \<Rightarrow> ([opts], Inl e)
                | Inr redirectTo \<Rightarrow>
                    if isProgrammaticClient (redirect_uri req)
                    then ([opts], Inr (Redirect redirectTo 302))
                    else ([opts], Inr (Html (Layout (AuthorizationApprovedContent redirectTo)
                                         ''CMP MCP Server - Authorization Status'') 200))))"

section \<open>The state labels\<close>

text \<open>
  Modelled from the spec: \<open>getStateName\<close> of \<open>./cmp_client.js\<close> is not part of the
  sources. The specification fixes that a device-state code, given as an integer or as a
  string, is looked up in a fixed table of labels and that an unrecognized code renders as
  \<open>Unknown (<code>)\<close> rather than failing; of the table it names the entry of code 6. The
  other entries are those that the schema of \<open>query_sim_list\<close> lists for \<open>simState\<close>.
\<close>

definition stateLabels :: "(string \<times> string) list" where
  "stateLabels =
     [(''2'', ''Pre-activation''), (''3'', ''Test''), (''4'', ''Silent''),
      (''5'', ''Standby''), (''6'', ''Active''), (''7'', ''Shutdown''),
      (''8'', ''Pause''), (''10'', ''Pre-logout''), (''11'', ''Logout'')]"

definition getStateName :: "json \<Rightarrow> thrown + string" where
  "getStateName simState =
     and_then (to_string simState) (\<lambda>code.
       Inr (case map_of stateLabels code of
              Some label \<Rightarrow> label
            | None \<Rightarrow> ''Unknown ('' @ code @ '')''))"

text \<open>A value that is neither an object nor an array.\<close>

definition primitive :: "json \<Rightarrow> bool" where
  "primitive v = (case v of JArr xs \<Rightarrow> False | JObj kvs \<Rightarrow> False | _ \<Rightarrow> True)"

section \<open>The status-code policy in the words of the specification\<close>

text \<open>The response is an object whose \<open>code\<close> is the number 200.\<close>

definition code_is_200 :: "json \<Rightarrow> bool" where
  "code_is_200 response =
     (case response of JObj kvs \<Rightarrow> map_of kvs ''code'' = Some (JNum 200) | _ \<Rightarrow> False)"

text \<open>The response is an object whose \<open>data\<close> is an object or an array.\<close>

definition data_object_present :: "json \<Rightarrow> bool" where
  "data_object_present response =
     (case response of
        JObj kvs \<Rightarrow>
          (case map_of kvs ''data'' of
             Some (JObj entries) \<Rightarrow> True
           | Some (JArr xs) \<Rightarrow> True
           | _ \<Rightarrow> False)
      | _ \<Rightarrow> False)"

text \<open>A result that carries one text block whose text starts with the cross mark.\<close>

definition failure_message :: "tool_result \<Rightarrow> bool" where
  "failure_message r =
     (case content r of
        [block] \<Rightarrow> type block = ''text'' \<and> prefix (cross_mark @ '' '') (text block)
      | _ \<Rightarrow> False)"

section \<open>Example adapters\<close>

text \<open>
  Two instances of the module on which the handlers can be run: one whose queries all
  answer the given response, and one whose queries all fail as an unreachable API does.
  Their \<open>getStateName\<close> is the one modelled above.
\<close>

definition answering :: "json \<Rightarrow> cmp_module" where
  "answering response =
     \<lparr>querySimList = (\<lambda>params. Inr response),
      querySimDetail = (\<lambda>iccid. Inr response),
      querySimMonthData = (\<lambda>query. Inr response),
      queryEuiccPage = (\<lambda>params. Inr response),
      formatDataUsage = (\<lambda>usage. and_then (to_string usage) (\<lambda>s. Inr (s @ '' B''))),
      stateName = getStateName,
      profileStatusName = to_string,
      profileTypeName = to_string\<rparr>"

definition unreachable :: cmp_module where
  "unreachable =
     \<lparr>querySimList = (\<lambda>params. Inl (Error ''fetch failed'')),
      querySimDetail = (\<lambda>iccid. Inl (Error ''fetch failed'')),
      querySimMonthData = (\<lambda>query. Inl (Error ''fetch failed'')),
      queryEuiccPage = (\<lambda>params. Inl (Error ''fetch failed'')),
      formatDataUsage = (\<lambda>usage. and_then (to_string usage) (\<lambda>s. Inr (s @ '' B''))),
      stateName = getStateName,
      profileStatusName = to_string,
      profileTypeName = to_string\<rparr>"

section \<open>Properties of the authorization pages\<close>

lemma includes_iff: "str_includes s sub \<longleftrightarrow> (\<exists>ps ss. s = ps @ sub @ ss)"
proof (induction s)
  case Nil
  then show ?case by auto
next
  case (Cons c cs)
  show ?case
  proof
    assume "str_includes (c # cs) sub"
    then consider "prefix sub (c # cs)" | "str_includes cs sub" by auto
    then show "\<exists>ps ss. c # cs = ps @ sub @ ss"
    proof cases
      case 1
      then obtain ss where "c # cs = sub @ ss" by (auto simp: prefix_def)
      then have "c # cs = [] @ sub @ ss" by simp
      then show ?thesis by blast
    next
      case 2
      with Cons.IH obtain ps ss where "cs = ps @ sub @ ss" by blast
      then have "c # cs = (c # ps) @ sub @ ss" by simp
      then show ?thesis by blast
    qed
  next
    assume "\<exists>ps ss. c # cs = ps @ sub @ ss"
    then obtain ps ss where eq: "c # cs = ps @ sub @ ss" by blast
    show "str_includes (c # cs) sub"
    proof (cases ps)
      case Nil
      with eq have "prefix sub (c # cs)" by (simp add: prefix_def)
      then show ?thesis by simp
    next
      case (Cons p ps')
      with eq have "cs = ps' @ sub @ ss" by simp
      with Cons.IH have "str_includes cs sub" by blast
      then show ?thesis by simp
    qed
  qed
qed

text \<open>
  C7: for every parsed authorization request and the fixed scope catalogue, GET /authorize
  renders the logged-in screen if and only if its authenticated flag is true, and the
  logged-out screen otherwise, for both values of the flag: this holds of the body of the
  handler as a function of the flag, and of the route, whose flag is the constant
  \<open>isLoggedIn\<close> of line 34. That constant being true, the route renders the logged-in
  screen.
\<close>

theorem authorize_selects_screen:
  "authorize_screen flag (Inr req) =
     Inr (Html (Layout ((if flag then LoggedInAuthorizeScreen else LoggedOutAuthorizeScreen)
                          oauthScopes req)
            ''MCP Remote Auth Demo - Authorization'') 200)
   \<and> ((\<exists>title. authorize_screen flag (Inr req)
          = Inr (Html (Layout (LoggedInAuthorizeScreen oauthScopes req) title) 200)) \<longleftrightarrow> flag)
   \<and> ((\<exists>title. authorize_screen flag (Inr req)
          = Inr (Html (Layout (LoggedOutAuthorizeScreen oauthScopes req) title) 200)) \<longleftrightarrow> \<not> flag)
   \<and> authorize (Inr req) =
     Inr (Html (Layout ((if isLoggedIn then LoggedInAuthorizeScreen else LoggedOutAuthorizeScreen)
                          oauthScopes req)
            ''MCP Remote Auth Demo - Authorization'') 200)
   \<and> ((\<exists>title. authorize (Inr req)
          = Inr (Html (Layout (LoggedInAuthorizeScreen oauthScopes req) title) 200))
        \<longleftrightarrow> isLoggedIn)
   \<and> ((\<exists>title. authorize (Inr req)
          = Inr (Html (Layout (LoggedOutAuthorizeScreen oauthScopes req) title) 200))
        \<longleftrightarrow> \<not> isLoggedIn)
   \<and> authorize (Inr req) = authorize_screen True (Inr req)
   \<and> authorize (Inr req) =
     Inr (Html (Layout (LoggedInAuthorizeScreen oauthScopes req)
            ''MCP Remote Auth Demo - Authorization'') 200)"
  by (simp add: authorize_screen_def authorize_def isLoggedIn_def)

theorem authorize_selects_screen_witness:
  "authorize_screen False
     (Inr \<lparr>clientId = ''c1'', redirect_uri = Some ''https://example.com/cb'',
           AuthRequest.scope = [''read_data''], state = ''xyz''\<rparr>)
   = Inr (Html (Layout (LoggedOutAuthorizeScreen oauthScopes
            \<lparr>clientId = ''c1'', redirect_uri = Some ''https://example.com/cb'',
             AuthRequest.scope = [''read_data''], state = ''xyz''\<rparr>)
          ''MCP Remote Auth Demo - Authorization'') 200)
   \<and> authorize
     (Inr \<lparr>clientId = ''c1'', redirect_uri = Some ''https://example.com/cb'',
           AuthRequest.scope = [''read_data''], state = ''xyz''\<rparr>)
   = Inr (Html (Layout (LoggedInAuthorizeScreen oauthScopes
            \<lparr>clientId = ''c1'', redirect_uri = Some ''https://example.com/cb'',
             AuthRequest.scope = [''read_data''], state = ''xyz''\<rparr>)
          ''MCP Remote Auth Demo - Authorization'') 200)"
proof -
  note screens = authorize_selects_screen [where flag = False and req =
      "\<lparr>clientId = ''c1'', redirect_uri = Some ''https://example.com/cb'',
        AuthRequest.scope = [''read_data''], state = ''xyz''\<rparr>"]
  from screens have "authorize_screen False
     (Inr \<lparr>clientId = ''c1'', redirect_uri = Some ''https://example.com/cb'',
           AuthRequest.scope = [''read_data''], state = ''xyz''\<rparr>)
   = Inr (Html (Layout (LoggedOutAuthorizeScreen oauthScopes
            \<lparr>clientId = ''c1'', redirect_uri = Some ''https://example.com/cb'',
             AuthRequest.scope = [''read_data''], state = ''xyz''\<rparr>)
          ''MCP Remote Auth Demo - Authorization'') 200)"
    by (simp only: if_False)
  moreover from screens have "authorize
     (Inr \<lparr>clientId = ''c1'', redirect_uri = Some ''https://example.com/cb'',
           AuthRequest.scope = [''read_data''], state = ''xyz''\<rparr>)
   = Inr (Html (Layout (LoggedInAuthorizeScreen oauthScopes
            \<lparr>clientId = ''c1'', redirect_uri = Some ''https://example.com/cb'',
             AuthRequest.scope = [''read_data''], state = ''xyz''\<rparr>)
          ''MCP Remote Auth Demo - Authorization'') 200)"
    by blast
  ultimately show ?thesis by (rule conjI)
qed

text \<open>
  C3: when no authorization request is recovered from the form, POST /approve answers
  \<open>INVALID LOGIN\<close> with status 401 and makes no call to the grant store's
  \<open>completeAuthorization\<close>, whatever the action and the credentials.
\<close>

theorem approve_without_request:
  "oauthReqInfo form = None \<Longrightarrow>
     approve completeAuthorization form = ([], Inr (Html (Text ''INVALID LOGIN'') 401))"
  by (simp add: approve_def)

theorem approve_without_request_witness:
  "approve (\<lambda>opts. Inr ''https://client.example/cb?code=1'')
     \<lparr>action = Some ''approve'', oauthReqInfo = None,
      email = Some ''a@b.com'', password = Some ''pw''\<rparr>
   = ([], Inr (Html (Text ''INVALID LOGIN'') 401))"
  using approve_without_request [of
      "\<lparr>action = Some ''approve'', oauthReqInfo = None,
        email = Some ''a@b.com'', password = Some ''pw''\<rparr>"
      "\<lambda>opts. Inr ''https://client.example/cb?code=1''"]
  by simp

text \<open>
  C2: rejecting a recovered request makes no call to the grant store, and the response is
  decided by the redirect URI alone: when it contains \<open>claude.ai\<close> or \<open>mcp\<close> the
  response is a 302 redirect to the redirect URI followed by
  \<open>?error=access_denied&error_description=User+denied+authorization\<close>; when it contains
  neither, or is undefined, the response is the HTML rejection page. A redirect is
  therefore returned exactly for the URIs with a marker.
\<close>

theorem reject_outcome:
  assumes "oauthReqInfo form = Some req" and "action form = Some ''reject''"
  shows "approve completeAuthorization form =
           ([], Inr (case redirect_uri req of
                       None \<Rightarrow> Html (Layout (AuthorizationRejectedContent ''/'')
                                 ''CMP MCP Server - Authorization Status'') 200
                     | Some u \<Rightarrow>
                         if str_includes u ''claude.ai'' \<or> str_includes u ''mcp''
                         then Redirect
                           (u @ ''?error=access_denied&error_description=User+denied+authorization'')
                           302
                         else Html (Layout (AuthorizationRejectedContent ''/'')
                                 ''CMP MCP Server - Authorization Status'') 200))
         \<and> ((\<exists>location status. snd (approve completeAuthorization form)
                 = Inr (Redirect location status))
              \<longleftrightarrow> (\<exists>u. redirect_uri req = Some u
                     \<and> (str_includes u ''claude.ai'' \<or> str_includes u ''mcp'')))"
proof -
  have empty: "\<not> str_includes [] ''claude.ai''" "\<not> str_includes [] ''mcp''"
    by simp_all
  show ?thesis
    using assms empty
    by (auto simp: approve_def Let_def isProgrammaticClient_def interpolate_def
        split: option.splits)
qed

theorem reject_outcome_witness:
  "approve (\<lambda>opts. Inr ''unused'')
     \<lparr>action = Some ''reject'',
      oauthReqInfo = Some \<lparr>clientId = ''c1'', redirect_uri = Some ''https://claude.ai/cb'',
                           AuthRequest.scope = [''read_data''], state = ''xyz''\<rparr>,
      email = None, password = None\<rparr>
   = ([], Inr (Redirect
        ''https://claude.ai/cb?error=access_denied&error_description=User+denied+authorization''
        302))
   \<and> approve (\<lambda>opts. Inr ''unused'')
     \<lparr>action = Some ''reject'',
      oauthReqInfo = Some \<lparr>clientId = ''c1'', redirect_uri = Some ''https://example.com/cb'',
                           AuthRequest.scope = [''read_data''], state = ''xyz''\<rparr>,
      email = None, password = None\<rparr>
   = ([], Inr (Html (Layout (AuthorizationRejectedContent ''/'')
                 ''CMP MCP Server - Authorization Status'') 200))"
  using reject_outcome [of
      "\<lparr>action = Some ''reject'',
        oauthReqInfo = Some \<lparr>clientId = ''c1'', redirect_uri = Some ''https://claude.ai/cb'',
                             AuthRequest.scope = [''read_data''], state = ''xyz''\<rparr>,
        email = None, password = None\<rparr>"
      "\<lparr>clientId = ''c1'', redirect_uri = Some ''https://claude.ai/cb'',
        AuthRequest.scope = [''read_data''], state = ''xyz''\<rparr>"
      "\<lambda>opts. Inr ''unused''"]
    reject_outcome [of
      "\<lparr>action = Some ''reject'',
        oauthReqInfo = Some \<lparr>clientId = ''c1'', redirect_uri = Some ''https://example.com/cb'',
                             AuthRequest.scope = [''read_data''], state = ''xyz''\<rparr>,
        email = None, password = None\<rparr>"
      "\<lparr>clientId = ''c1'', redirect_uri = Some ''https://example.com/cb'',
        AuthRequest.scope = [''read_data''], state = ''xyz''\<rparr>"
      "\<lambda>opts. Inr ''unused''"]
  by simp

text \<open>
  C6: for a recovered request and any action other than \<open>reject\<close> (so for
  \<open>approve\<close> and \<open>login_approve\<close>), POST /approve makes exactly one call to
  \<open>completeAuthorization\<close>, with the request, the user id, the metadata label, the scope
  of the request and the props; and when that call returns \<open>redirectTo\<close>, the response
  is a 302 redirect to \<open>redirectTo\<close> itself when the redirect URI contains \<open>claude.ai\<close>
  or \<open>mcp\<close>, and the HTML approval page otherwise.
\<close>

theorem approve_outcome:
  assumes "oauthReqInfo form = Some req" and "action form \<noteq> Some ''reject''"
  shows "fst (approve completeAuthorization form) =
           [\<lparr>request = req,
             userId = or_else (email form) ''user@example.com'',
             metadata = [(''label'', ''CMP MCP User'')],
             scope = AuthRequest.scope req,
             props = [(''userEmail'', or_else (email form) ''user@example.com'')]\<rparr>]
         \<and> (\<forall>redirectTo.
               completeAuthorization
                 \<lparr>request = req,
                  userId = or_else (email form) ''user@example.com'',
                  metadata = [(''label'', ''CMP MCP User'')],
                  scope = AuthRequest.scope req,
                  props = [(''userEmail'', or_else (email form) ''user@example.com'')]\<rparr>
               = Inr redirectTo \<longrightarrow>
               snd (approve completeAuthorization form) =
                 Inr (case redirect_uri req of
                        None \<Rightarrow> Html (Layout (AuthorizationApprovedContent redirectTo)
                                  ''CMP MCP Server - Authorization Status'') 200
                      | Some u \<Rightarrow>
                          if str_includes u ''claude.ai'' \<or> str_includes u ''mcp''
                          then Redirect redirectTo 302
                          else Html (Layout (AuthorizationApprovedContent redirectTo)
                                  ''CMP MCP Server - Authorization Status'') 200))"
proof -
  have empty: "\<not> str_includes [] ''claude.ai''" "\<not> str_includes [] ''mcp''"
    by simp_all
  show ?thesis
    using assms empty
    by (auto simp: approve_def Let_def isProgrammaticClient_def
        split: option.splits sum.splits)
qed

theorem approve_outcome_witness:
  "approve (\<lambda>opts. Inr (''https://claude.ai/callback?code='' @ userId opts))
     \<lparr>action = Some ''approve'',
      oauthReqInfo = Some \<lparr>clientId = ''c1'',
                           redirect_uri = Some ''https://claude.ai/callback?x=1'',
                           AuthRequest.scope = [''read_data''], state = ''xyz''\<rparr>,
      email = Some ''a@b.com'', password = None\<rparr>
   = ([\<lparr>request = \<lparr>clientId = ''c1'',
                      redirect_uri = Some ''https://claude.ai/callback?x=1'',
                      AuthRequest.scope = [''read_data''], state = ''xyz''\<rparr>,
        userId = ''a@b.com'',
        metadata = [(''label'', ''CMP MCP User'')],
        scope = [''read_data''],
        props = [(''userEmail'', ''a@b.com'')]\<rparr>],
      Inr (Redirect ''https://claude.ai/callback?code=a@b.com'' 302))"
  using approve_outcome [of
      "\<lparr>action = Some ''approve'',
        oauthReqInfo = Some \<lparr>clientId = ''c1'',
                             redirect_uri = Some ''https://claude.ai/callback?x=1'',
                             AuthRequest.scope = [''read_data''], state = ''xyz''\<rparr>,
        email = Some ''a@b.com'', password = None\<rparr>"
      "\<lparr>clientId = ''c1'', redirect_uri = Some ''https://claude.ai/callback?x=1'',
        AuthRequest.scope = [''read_data''], state = ''xyz''\<rparr>"
      "\<lambda>opts. Inr (''https://claude.ai/callback?code='' @ userId opts)"]
  by (simp add: or_else_def prod_eq_iff)

text \<open>
  C10: for a recovered request and the action \<open>approve\<close> or \<open>login_approve\<close>, the
  handler calls \<open>completeAuthorization\<close> exactly once whatever the email and the
  password are, it never answers with the rejection page, and when the email is absent or
  empty both the user id and \<open>props.userEmail\<close> of the grant are
  \<open>user@example.com\<close>.
\<close>

theorem approve_accepts_any_credentials:
  assumes "oauthReqInfo form = Some req"
    and "action form = Some ''approve'' \<or> action form = Some ''login_approve''"
  shows "(\<exists>opts. fst (approve completeAuthorization form) = [opts]
            \<and> request opts = req
            \<and> (email form = None \<or> email form = Some [] \<longrightarrow>
                 userId opts = ''user@example.com''
                 \<and> props opts = [(''userEmail'', ''user@example.com'')]))
         \<and> (\<forall>page title status.
               snd (approve completeAuthorization form)
                 \<noteq> Inr (Html (Layout (AuthorizationRejectedContent page) title) status))"
  using assms
  by (auto simp: approve_def Let_def or_else_def split: option.splits sum.splits)

theorem approve_accepts_any_credentials_witness:
  "approve (\<lambda>opts. Inr ''https://example.com/cb?code=7'')
     \<lparr>action = Some ''login_approve'',
      oauthReqInfo = Some \<lparr>clientId = ''c1'', redirect_uri = Some ''https://example.com/cb'',
                           AuthRequest.scope = [''read_data''], state = ''xyz''\<rparr>,
      email = Some [], password = None\<rparr>
   = ([\<lparr>request = \<lparr>clientId = ''c1'', redirect_uri = Some ''https://example.com/cb'',
                      AuthRequest.scope = [''read_data''], state = ''xyz''\<rparr>,
        userId = ''user@example.com'',
        metadata = [(''label'', ''CMP MCP User'')],
        scope = [''read_data''],
        props = [(''userEmail'', ''user@example.com'')]\<rparr>],
      Inr (Html (Layout (AuthorizationApprovedContent ''https://example.com/cb?code=7'')
             ''CMP MCP Server - Authorization Status'') 200))"
proof -
  let ?req = "\<lparr>clientId = ''c1'', redirect_uri = Some ''https://example.com/cb'',
               AuthRequest.scope = [''read_data''], state = ''xyz''\<rparr>"
  let ?form = "\<lparr>action = Some ''login_approve'', oauthReqInfo = Some ?req,
                email = Some [], password = None\<rparr>"
  let ?store = "\<lambda>opts :: CompleteAuthorizationOptions.
                  Inr ''https://example.com/cb?code=7'' :: thrown + string"
  have "\<forall>page title status.
          snd (approve ?store ?form)
            \<noteq> Inr (Html (Layout (AuthorizationRejectedContent page) title) status)"
    using approve_accepts_any_credentials [of ?form ?req ?store] by simp
  then show ?thesis
    by (simp add: approve_def Let_def or_else_def isProgrammaticClient_def)
qed

section \<open>Properties of the tool handlers\<close>

lemma and_then_Inl [simp]: "and_then (Inl e) f = Inl e"
  by (simp add: and_then_def)

lemma and_then_Inr [simp]: "and_then (Inr v) f = f v"
  by (simp add: and_then_def)

lemma and_then_eq_Inr:
  "and_then m f = Inr r \<longleftrightarrow> (\<exists>v. m = Inr v \<and> f v = Inr r)"
  by (cases m) simp_all

lemma concat_all_lit_prefix:
  "concat_all (lit h # ps) = Inr t \<Longrightarrow> prefix h t"
  by (auto simp: lit_def split: sum.splits)

lemma get_code_200: "get response ''code'' = Inr (JNum 200) \<longleftrightarrow> code_is_200 response"
  by (cases response) (auto simp: code_is_200_def split: option.splits)

lemma query_failed_prefix:
  "query_failed response = Inr t \<Longrightarrow> prefix (cross_mark @ '' '') t"
  unfolding query_failed_def
  by (auto simp: lit_def split: sum.splits)

lemma failure_message_text_result:
  "failure_message (text_result t) \<longleftrightarrow> prefix (cross_mark @ '' '') t"
  by (simp add: failure_message_def text_result_def)

lemma failure_of_query_failed:
  assumes "\<And>error. failure_message (caught error)"
  shows "failure_message (case query_failed response of
                            Inr result \<Rightarrow> text_result result
                          | Inl error \<Rightarrow> caught error)"
  using assms
  by (auto simp: failure_message_text_result split: sum.splits dest: query_failed_prefix)

lemma strict_policy_success:
  assumes "adapter = Inr response" and "code_is_200 response"
  shows "and_then adapter (\<lambda>response. and_then (get response ''code'')
           (\<lambda>code. if code = JNum 200 then success response else query_failed response))
         = success response"
  using assms by (simp add: get_code_200 [symmetric])

lemma strict_policy_failure:
  assumes "adapter = Inr response" and "\<not> code_is_200 response"
    and caught: "\<And>error. failure_message (caught error)"
  shows "failure_message
         (case and_then adapter (\<lambda>response. and_then (get response ''code'')
                 (\<lambda>code. if code = JNum 200 then success response else query_failed response)) of
            Inr result \<Rightarrow> text_result result
          | Inl error \<Rightarrow> caught error)"
proof (cases "get response ''code''")
  case (Inl e)
  with assms show ?thesis by simp
next
  case (Inr v)
  with assms have "v \<noteq> JNum 200" by (auto simp: get_code_200)
  with Inr assms(1) show ?thesis by (simp add: failure_of_query_failed [OF caught])
qed

lemma code_or_data_iff:
  "code_or_data response = Inr True \<longleftrightarrow> code_is_200 response \<or> data_object_present response"
  by (cases response)
    (auto simp: code_or_data_def code_is_200_def data_object_present_def typeof_object_def
      split: option.splits json.splits)

lemma code_or_data_cases:
  "code_or_data response = Inr (code_is_200 response \<or> data_object_present response)
   \<or> (\<exists>e. code_or_data response = Inl e)"
  by (cases response)
    (auto simp: code_or_data_def code_is_200_def data_object_present_def typeof_object_def
      split: option.splits json.splits)

lemma lenient_policy_success:
  assumes "adapter = Inr response" and "code_is_200 response \<or> data_object_present response"
  shows "and_then adapter (\<lambda>response. and_then (code_or_data response)
           (\<lambda>success. if success then branch response else query_failed response))
         = branch response"
proof -
  from assms(2) have "code_or_data response = Inr True" by (simp add: code_or_data_iff)
  with assms(1) show ?thesis by simp
qed

lemma lenient_policy_failure:
  assumes "adapter = Inr response"
    and "\<not> (code_is_200 response \<or> data_object_present response)"
    and caught: "\<And>error. failure_message (caught error)"
  shows "failure_message
         (case and_then adapter (\<lambda>response. and_then (code_or_data response)
                 (\<lambda>success. if success then branch response else query_failed response)) of
            Inr result \<Rightarrow> text_result result
          | Inl error \<Rightarrow> caught error)"
proof -
  from code_or_data_cases [of response]
  consider "code_or_data response = Inr False" | e where "code_or_data response = Inl e"
    using assms(2) by auto
  then show ?thesis
  proof cases
    case 1
    with assms(1) show ?thesis by (simp add: failure_of_query_failed [OF caught])
  next
    case 2
    with assms(1) caught show ?thesis by simp
  qed
qed

lemma sim_list_success_header:
  "sim_list_success cmp response = Inr t \<Longrightarrow> prefix (bar_chart @ '' SIM Query Results\<newline>'') t"
  unfolding sim_list_success_def
  by (auto simp: and_then_eq_Inr simp del: concat_all.simps dest: concat_all_lit_prefix)

lemma sim_detail_success_header:
  "sim_detail_success cmp response = Inr t \<Longrightarrow> prefix (mobile_phone @ '' SIM Card Details\<newline>'') t"
  unfolding sim_detail_success_def
  by (auto simp: and_then_eq_Inr simp del: concat_all.simps dest: concat_all_lit_prefix)

lemma sim_usage_success_header:
  "sim_usage_success response = Inr t \<Longrightarrow> prefix (bar_chart @ '' SIM Usage Details\<newline>'') t"
  unfolding sim_usage_success_def
  by (auto simp: and_then_eq_Inr simp del: concat_all.simps dest: concat_all_lit_prefix)

lemma euicc_list_success_header:
  "euicc_list_success cmp response = Inr t
     \<Longrightarrow> prefix (satellite_antenna @ '' eUICC List Results\<newline>'') t"
  unfolding euicc_list_success_def
  by (auto simp: and_then_eq_Inr simp del: concat_all.simps dest: concat_all_lit_prefix)

text \<open>
  C1: whenever the adapter returns a response, \<open>query_sim_list\<close> and
  \<open>query_sim_detail\<close> run their success branch exactly when the response is an object
  whose code is the number 200, while \<open>query_sim_usage\<close> and \<open>query_euicc_list\<close> run it
  when the code is 200 or the response carries a data value that is an object or an array;
  the result is then the outcome of that branch (its text, or the message of the exception
  caught in it). In every other case the result is a failure message. A text returned by a
  success branch is never a failure message.
\<close>

theorem status_code_policy:
  "(querySimList cmp params = Inr response \<longrightarrow>
      (if code_is_200 response
       then query_sim_list cmp params =
              (case sim_list_success cmp response of
                 Inr result \<Rightarrow> text_result result
               | Inl error \<Rightarrow> text_result (cross_mark @ '' Failed to query SIM list: ''
                               @ error_message error))
       else failure_message (query_sim_list cmp params)))
   \<and> (querySimDetail cmp iccid = Inr response \<longrightarrow>
      (if code_is_200 response
       then query_sim_detail cmp iccid =
              (case sim_detail_success cmp response of
                 Inr result \<Rightarrow> text_result result
               | Inl error \<Rightarrow> text_result (cross_mark @ '' Failed to query SIM details: ''
                               @ error_message error))
       else failure_message (query_sim_detail cmp iccid)))
   \<and> (querySimMonthData cmp (JObj [(''iccid'', JStr iccid), (''month'', JStr month)])
        = Inr response \<longrightarrow>
      (if code_is_200 response \<or> data_object_present response
       then query_sim_usage cmp iccid month =
              (case sim_usage_success response of
                 Inr result \<Rightarrow> text_result result
               | Inl error \<Rightarrow> text_result (cross_mark @ '' Failed to query SIM usage: ''
                               @ error_message error))
       else failure_message (query_sim_usage cmp iccid month)))
   \<and> (queryEuiccPage cmp params = Inr response \<longrightarrow>
      (if code_is_200 response \<or> data_object_present response
       then query_euicc_list cmp params =
              (case euicc_list_success cmp response of
                 Inr result \<Rightarrow> text_result result
               | Inl error \<Rightarrow> text_result (cross_mark @ '' Failed to query eUICC list: ''
                               @ error_message error))
       else failure_message (query_euicc_list cmp params)))
   \<and> (\<forall>result. sim_list_success cmp response = Inr result
          \<or> sim_detail_success cmp response = Inr result
          \<or> sim_usage_success response = Inr result
          \<or> euicc_list_success cmp response = Inr result
        \<longrightarrow> \<not> failure_message (text_result result))"
proof -
  have list: "querySimList cmp params = Inr response \<longrightarrow>
      (if code_is_200 response
       then query_sim_list cmp params =
              (case sim_list_success cmp response of
                 Inr result \<Rightarrow> text_result result
               | Inl error \<Rightarrow> text_result (cross_mark @ '' Failed to query SIM list: ''
                               @ error_message error))
       else failure_message (query_sim_list cmp params))"
  proof (intro impI)
    assume adapter: "querySimList cmp params = Inr response"
    show "if code_is_200 response
       then query_sim_list cmp params =
              (case sim_list_success cmp response of
                 Inr result \<Rightarrow> text_result result
               | Inl error \<Rightarrow> text_result (cross_mark @ '' Failed to query SIM list: ''
                               @ error_message error))
       else failure_message (query_sim_list cmp params)"
    proof (cases "code_is_200 response")
      case True
      with adapter have "query_sim_list_body cmp params = sim_list_success cmp response"
        unfolding query_sim_list_body_def by (intro strict_policy_success)
      with True show ?thesis by (simp add: query_sim_list_def)
    next
      case False
      have "failure_message (query_sim_list cmp params)"
        unfolding query_sim_list_def query_sim_list_body_def
        by (rule strict_policy_failure [OF adapter False]) (simp add: failure_message_text_result)
      with False show ?thesis by simp
    qed
  qed
  have detail: "querySimDetail cmp iccid = Inr response \<longrightarrow>
      (if code_is_200 response
       then query_sim_detail cmp iccid =
              (case sim_detail_success cmp response of
                 Inr result \<Rightarrow> text_result result
               | Inl error \<Rightarrow> text_result (cross_mark @ '' Failed to query SIM details: ''
                               @ error_message error))
       else failure_message (query_sim_detail cmp iccid))"
  proof (intro impI)
    assume adapter: "querySimDetail cmp iccid = Inr response"
    show "if code_is_200 response
       then query_sim_detail cmp iccid =
              (case sim_detail_success cmp response of
                 Inr result \<Rightarrow> text_result result
               | Inl error \<Rightarrow> text_result (cross_mark @ '' Failed to query SIM details: ''
                               @ error_message error))
       else failure_message (query_sim_detail cmp iccid)"
    proof (cases "code_is_200 response")
      case True
      with adapter have "query_sim_detail_body cmp iccid = sim_detail_success cmp response"
        unfolding query_sim_detail_body_def by (intro strict_policy_success)
      with True show ?thesis by (simp add: query_sim_detail_def)
    next
      case False
      have "failure_message (query_sim_detail cmp iccid)"
        unfolding query_sim_detail_def query_sim_detail_body_def
        by (rule strict_policy_failure [OF adapter False]) (simp add: failure_message_text_result)
      with False show ?thesis by simp
    qed
  qed
  have usage: "querySimMonthData cmp (JObj [(''iccid'', JStr iccid), (''month'', JStr month)]) = Inr response \<longrightarrow>
      (if code_is_200 response \<or> data_object_present response
       then query_sim_usage cmp iccid month =
              (case sim_usage_success response of
                 Inr result \<Rightarrow> text_result result
               | Inl error \<Rightarrow> text_result (cross_mark @ '' Failed to query SIM usage: ''
                               @ error_message error))
       else failure_message (query_sim_usage cmp iccid month))"
  proof (intro impI)
    assume adapter: "querySimMonthData cmp (JObj [(''iccid'', JStr iccid), (''month'', JStr month)]) = Inr response"
    show "if code_is_200 response \<or> data_object_present response
       then query_sim_usage cmp iccid month =
              (case sim_usage_success response of
                 Inr result \<Rightarrow> text_result result
               | Inl error \<Rightarrow> text_result (cross_mark @ '' Failed to query SIM usage: ''
                               @ error_message error))
       else failure_message (query_sim_usage cmp iccid month)"
    proof (cases "code_is_200 response \<or> data_object_present response")
      case True
      with adapter have "query_sim_usage_body cmp iccid month = sim_usage_success response"
        unfolding query_sim_usage_body_def by (intro lenient_policy_success)
      with True show ?thesis by (simp add: query_sim_usage_def)
    next
      case False
      have "failure_message (query_sim_usage cmp iccid month)"
        unfolding query_sim_usage_def query_sim_usage_body_def
        by (rule lenient_policy_failure [OF adapter False]) (simp add: failure_message_text_result)
      with False show ?thesis by simp
    qed
  qed
  have euicc: "queryEuiccPage cmp params = Inr response \<longrightarrow>
      (if code_is_200 response \<or> data_object_present response
       then query_euicc_list cmp params =
              (case euicc_list_success cmp response of
                 Inr result \<Rightarrow> text_result result
               | Inl error \<Rightarrow> text_result (cross_mark @ '' Failed to query eUICC list: ''
                               @ error_message error))
       else failure_message (query_euicc_list cmp params))"
  proof (intro impI)
    assume adapter: "queryEuiccPage cmp params = Inr response"
    show "if code_is_200 response \<or> data_object_present response
       then query_euicc_list cmp params =
              (case euicc_list_success cmp response of
                 Inr result \<Rightarrow> text_result result
               | Inl error \<Rightarrow> text_result (cross_mark @ '' Failed to query eUICC list: ''
                               @ error_message error))
       else failure_message (query_euicc_list cmp params)"
    proof (cases "code_is_200 response \<or> data_object_present response")
      case True
      with adapter have "query_euicc_list_body cmp params = euicc_list_success cmp response"
        unfolding query_euicc_list_body_def by (intro lenient_policy_success)
      with True show ?thesis by (simp add: query_euicc_list_def)
    next
      case False
      have "failure_message (query_euicc_list cmp params)"
        unfolding query_euicc_list_def query_euicc_list_body_def
        by (rule lenient_policy_failure [OF adapter False]) (simp add: failure_message_text_result)
      with False show ?thesis by simp
    qed
  qed
  have headers: "\<not> failure_message (text_result result)"
    if "sim_list_success cmp response = Inr result
          \<or> sim_detail_success cmp response = Inr result
          \<or> sim_usage_success response = Inr result
          \<or> euicc_list_success cmp response = Inr result" for result
  proof -
    from that consider
        "prefix (bar_chart @ '' SIM Query Results\<newline>'') result"
      | "prefix (mobile_phone @ '' SIM Card Details\<newline>'') result"
      | "prefix (bar_chart @ '' SIM Usage Details\<newline>'') result"
      | "prefix (satellite_antenna @ '' eUICC List Results\<newline>'') result"
      using sim_list_success_header sim_detail_success_header sim_usage_success_header
        euicc_list_success_header by blast
    then show ?thesis
      by cases
        (auto simp: bar_chart_def mobile_phone_def satellite_antenna_def cross_mark_def
          failure_message_text_result prefix_def)
  qed
  from list detail usage euicc headers show ?thesis by blast
qed

theorem status_code_policy_witness:
  "failure_message (query_sim_list (answering (JObj [(''data'', JObj [])])) (JObj []))
   \<and> failure_message (query_sim_detail (answering (JObj [(''data'', JObj [])])) ''8986'')
   \<and> \<not> failure_message
        (query_sim_usage (answering (JObj [(''data'', JObj [])])) ''8986'' ''202301'')
   \<and> \<not> failure_message (query_euicc_list (answering (JObj [(''data'', JObj [])])) (JObj []))"
proof -
  let ?r = "JObj [(''data'', JObj [])]"
  note policy = status_code_policy [of "answering ?r" "JObj []" ?r "''8986''" "''202301''"]
  have no_code: "\<not> code_is_200 ?r" and data: "data_object_present ?r"
    by (simp_all add: code_is_200_def data_object_present_def)
  have usage: "\<exists>t. sim_usage_success ?r = Inr t"
    by (simp add: sim_usage_success_def interp_def lit_def)
  have euicc: "\<exists>t. euicc_list_success (answering ?r) ?r = Inr t"
    by (simp add: euicc_list_success_def interp_def lit_def or_value_def gt_zero_def)
  from policy no_code have "failure_message (query_sim_list (answering ?r) (JObj []))"
    and "failure_message (query_sim_detail (answering ?r) ''8986'')"
    by (simp_all add: answering_def)
  moreover from policy data usage
  have "\<not> failure_message (query_sim_usage (answering ?r) ''8986'' ''202301'')"
    by (auto simp: answering_def)
  moreover from policy data euicc
  have "\<not> failure_message (query_euicc_list (answering ?r) (JObj []))"
    by (auto simp: answering_def)
  ultimately show ?thesis by simp
qed

text \<open>
  C4: every invocation of one of the four tools returns a result whose content is exactly
  one block of type \<open>text\<close>; when the call of the adapter throws, the text is the cross
  mark, \<open>Failed to query ...:\<close> and the message of the error (\<open>Unknown error\<close> when the
  thrown value is not an \<open>Error\<close>).
\<close>

theorem tool_call_returns_one_text_block:
  "(\<exists>t. call_tool cmp call = \<lparr>content = [\<lparr>type = ''text'', text = t\<rparr>]\<rparr>)
   \<and> (querySimList cmp params = Inl e \<longrightarrow>
        query_sim_list cmp params
          = text_result (cross_mark @ '' Failed to query SIM list: '' @ error_message e))
   \<and> (querySimDetail cmp iccid = Inl e \<longrightarrow>
        query_sim_detail cmp iccid
          = text_result (cross_mark @ '' Failed to query SIM details: '' @ error_message e))
   \<and> (querySimMonthData cmp (JObj [(''iccid'', JStr iccid), (''month'', JStr month)]) = Inl e \<longrightarrow>
        query_sim_usage cmp iccid month
          = text_result (cross_mark @ '' Failed to query SIM usage: '' @ error_message e))
   \<and> (queryEuiccPage cmp params = Inl e \<longrightarrow>
        query_euicc_list cmp params
          = text_result (cross_mark @ '' Failed to query eUICC list: '' @ error_message e))"
proof -
  have "\<exists>t. call_tool cmp call = \<lparr>content = [\<lparr>type = ''text'', text = t\<rparr>]\<rparr>"
    by (cases call)
      (simp_all add: query_sim_list_def query_sim_detail_def query_sim_usage_def
        query_euicc_list_def text_result_def split: sum.splits)
  moreover have "querySimList cmp params = Inl e \<longrightarrow>
        query_sim_list cmp params
          = text_result (cross_mark @ '' Failed to query SIM list: '' @ error_message e)"
    by (simp add: query_sim_list_def query_sim_list_body_def)
  moreover have "querySimDetail cmp iccid = Inl e \<longrightarrow>
        query_sim_detail cmp iccid
          = text_result (cross_mark @ '' Failed to query SIM details: '' @ error_message e)"
    by (simp add: query_sim_detail_def query_sim_detail_body_def)
  moreover have "querySimMonthData cmp (JObj [(''iccid'', JStr iccid), (''month'', JStr month)])
          = Inl e \<longrightarrow>
        query_sim_usage cmp iccid month
          = text_result (cross_mark @ '' Failed to query SIM usage: '' @ error_message e)"
    by (simp add: query_sim_usage_def query_sim_usage_body_def)
  moreover have "queryEuiccPage cmp params = Inl e \<longrightarrow>
        query_euicc_list cmp params
          = text_result (cross_mark @ '' Failed to query eUICC list: '' @ error_message e)"
    by (simp add: query_euicc_list_def query_euicc_list_body_def)
  ultimately show ?thesis by blast
qed

theorem tool_call_returns_one_text_block_witness:
  "call_tool unreachable (QuerySimList (JObj [(''pageNum'', JNum 1)]))
     = \<lparr>content = [\<lparr>type = ''text'',
                      text = cross_mark @ '' Failed to query SIM list: fetch failed''\<rparr>]\<rparr>
   \<and> call_tool unreachable (QuerySimUsage ''8986'' ''202301'')
     = \<lparr>content = [\<lparr>type = ''text'',
                      text = cross_mark @ '' Failed to query SIM usage: fetch failed''\<rparr>]\<rparr>
   \<and> call_tool (answering JNull) (QuerySimDetail ''8986'')
     = \<lparr>content = [\<lparr>type = ''text'',
                      text = cross_mark @ '' Failed to query SIM details: ''
                        @ ''Cannot read properties of null (reading '' @ [CHR 0x27]
                        @ ''code'' @ [CHR 0x27] @ '')''\<rparr>]\<rparr>"
  using tool_call_returns_one_text_block
    [of unreachable "QuerySimList (JObj [(''pageNum'', JNum 1)])"
      "JObj [(''pageNum'', JNum 1)]" "Error ''fetch failed''" "''8986''" "''202301''"]
  by (simp add: unreachable_def answering_def text_result_def error_message_def
      query_sim_detail_def query_sim_detail_body_def)


subsection \<open>Decimal notation\<close>

lemma digit_char_cases:
  assumes "c \<in> set ''0123456789''"
  obtains "c = CHR ''0''" | "c = CHR ''1''" | "c = CHR ''2''" | "c = CHR ''3''" | "c = CHR ''4''"
    | "c = CHR ''5''" | "c = CHR ''6''" | "c = CHR ''7''" | "c = CHR ''8''" | "c = CHR ''9''"
  using assms by auto

lemma is_digit_decimal: "c \<in> set ''0123456789'' \<Longrightarrow> is_digit 10 c"
  by (erule digit_char_cases) (simp_all add: is_digit_def digit_of_def)

lemma strip_digit: "c \<in> set ''0123456789'' \<Longrightarrow> strip white_space (c # cs) = c # cs"
  by (erule digit_char_cases) (simp_all add: white_space_def)

lemma below_ten:
  "k < 10 \<Longrightarrow> k = 0 \<or> k = 1 \<or> k = 2 \<or> k = 3 \<or> k = 4 \<or> k = 5 \<or> k = 6 \<or> k = 7 \<or> k = 8
     \<or> k = (9::nat)"
  by arith

lemma nth_digit:
  assumes "k < 10"
  shows "''0123456789'' ! k \<in> set ''0123456789''"
    and "digit_of (''0123456789'' ! k) = Some k"
  using below_ten [OF assms] by (auto simp: digit_of_def)

lemma digits_value_snoc:
  "digits_value R (ds @ [c])
     = digits_value R ds * int R + (case digit_of c of None \<Rightarrow> 0 | Some d \<Rightarrow> int d)"
  by (simp add: digits_value_def)

lemma show_digits_decimal:
  "0 \<le> n \<Longrightarrow>
     show_digits n \<noteq> [] \<and> set (show_digits n) \<subseteq> set ''0123456789''
     \<and> digits_value 10 (show_digits n) = n"
proof (induction n rule: show_digits.induct)
  case (1 n)
  show ?case
  proof (cases "n < 10")
    case True
    with "1.prems" have k: "nat n < 10" by simp
    from True have eq: "show_digits n = [''0123456789'' ! nat n]"
      by (subst show_digits.simps) simp
    from nth_digit [OF k] "1.prems" show ?thesis
      unfolding eq by (simp add: digits_value_def)
  next
    case False
    then have eq: "show_digits n = show_digits (n div 10) @ [''0123456789'' ! nat (n mod 10)]"
      by (subst show_digits.simps) simp
    from "1.prems" have k: "nat (n mod 10) < 10" by simp
    from False "1.prems" have "0 \<le> n div 10" by simp
    with "1.IH" False have ih: "show_digits (n div 10) \<noteq> []"
      "set (show_digits (n div 10)) \<subseteq> set ''0123456789''"
      "digits_value 10 (show_digits (n div 10)) = n div 10"
      by simp_all
    have "digits_value 10 (show_digits n) = (n div 10) * 10 + int (nat (n mod 10))"
      unfolding eq digits_value_snoc using ih(3) nth_digit(2) [OF k] by simp
    also have "\<dots> = n" by simp
    finally have "digits_value 10 (show_digits n) = n" .
    moreover from ih(2) nth_digit(1) [OF k]
    have "set (show_digits n) \<subseteq> set ''0123456789''"
      unfolding eq by simp
    moreover have "show_digits n \<noteq> []" unfolding eq by simp
    ultimately show ?thesis by simp
  qed
qed

lemma parseInt_digits:
  assumes "ds \<noteq> []" and "set ds \<subseteq> set ''0123456789''"
  shows "parseInt ds = Some (digits_value 10 ds)"
    and "parseInt (CHR ''-'' # ds) = Some (- digits_value 10 ds)"
proof -
  from assms obtain c cs where ds: "ds = c # cs" and c: "c \<in> set ''0123456789''"
    by (cases ds) auto
  have all: "takeWhile (is_digit 10) ds = ds"
    using assms(2) by (auto intro!: takeWhile_eq_all_conv [THEN iffD2] is_digit_decimal)
  have no_sign: "take 1 ds \<noteq> ''-''" "take 1 ds \<noteq> ''+''"
    using c unfolding ds by auto
  have no_hex: "take 2 ds \<noteq> ''0x''" "take 2 ds \<noteq> ''0X''"
  proof -
    have "\<not> (\<exists>r. cs = CHR ''x'' # r) \<and> \<not> (\<exists>r. cs = CHR ''X'' # r)"
      using assms(2) unfolding ds by auto
    then show "take 2 ds \<noteq> ''0x''" "take 2 ds \<noteq> ''0X''"
      unfolding ds by (cases cs; auto)+
  qed
  have trim: "trim_start ds = ds"
    unfolding ds trim_start_def by (rule strip_digit [OF c])
  have trim_minus: "trim_start (CHR ''-'' # ds) = CHR ''-'' # ds"
    unfolding trim_start_def by (simp add: white_space_def)
  show "parseInt ds = Some (digits_value 10 ds)"
    using no_sign no_hex assms(1)
    by (simp add: parseInt_def trim Let_def all del: takeWhile_eq_all_conv)
  show "parseInt (CHR ''-'' # ds) = Some (- digits_value 10 ds)"
    using no_sign no_hex assms(1)
    by (simp add: parseInt_def trim_minus Let_def all del: takeWhile_eq_all_conv)
qed

lemma parseInt_show_int: "parseInt (show_int n) = Some n"
proof (cases "n < 0")
  case True
  then have "0 \<le> - n" by simp
  from show_digits_decimal [OF this] parseInt_digits(2) [of "show_digits (- n)"] True
  show ?thesis by (simp add: show_int_def)
next
  case False
  then have "0 \<le> n" by simp
  from show_digits_decimal [OF this] parseInt_digits(1) [of "show_digits n"] False
  show ?thesis by (simp add: show_int_def)
qed

lemma show_int_not_empty: "show_int n \<noteq> []"
proof (cases "n < 0")
  case True
  then show ?thesis by (simp add: show_int_def)
next
  case False
  then have "0 \<le> n" by simp
  from show_digits_decimal [OF this] False show ?thesis by (simp add: show_int_def)
qed

subsection \<open>State labels\<close>

lemma concat_all_append_eq:
  "concat_all (ps @ qs) =
     (case concat_all ps of
        Inl e \<Rightarrow> Inl e
      | Inr a \<Rightarrow> (case concat_all qs of Inl e \<Rightarrow> Inl e | Inr b \<Rightarrow> Inr (a @ b)))"
  by (induction ps) (auto split: sum.splits)

lemma concat_all_append:
  "concat_all (ps @ qs) = Inr t \<longleftrightarrow>
     (\<exists>a b. concat_all ps = Inr a \<and> concat_all qs = Inr b \<and> t = a @ b)"
  by (auto simp: concat_all_append_eq split: sum.splits)

lemma concat_all_slice:
  assumes "concat_all ps = Inr t" and "concat_all (take n (drop k ps)) = Inr m"
  shows "str_includes t m"
proof -
  have "ps = take k ps @ (take n (drop k ps) @ drop n (drop k ps))"
    by (simp only: append_take_drop_id)
  with assms(1) have "concat_all (take k ps @ (take n (drop k ps) @ drop n (drop k ps))) = Inr t"
    by simp
  then obtain a b c where "concat_all (take n (drop k ps)) = Inr b" and "t = a @ b @ c"
    unfolding concat_all_append by blast
  with assms(2) have "t = a @ m @ c" by simp
  then show ?thesis unfolding includes_iff by blast
qed

lemma show_int_99: "show_int 99 = ''99''"
  by (simp add: show_int_def show_digits.simps)

lemma primitive_to_string: "primitive v \<Longrightarrow> \<exists>s. to_string v = Inr s"
  by (cases v) (simp_all add: primitive_def)

lemma lookup_primitive:
  "list_all (\<lambda>kv. primitive (snd kv)) kvs
     \<Longrightarrow> primitive (case map_of kvs k of None \<Rightarrow> JUndefined | Some v \<Rightarrow> v)"
  by (induction kvs) (auto simp: primitive_def)

lemma field_returns:
  assumes "list_all (\<lambda>kv. primitive (snd kv)) kvs" and "primitive d"
  shows "\<exists>s. interp (or_value (get (JObj kvs) k) d) = Inr s"
  using lookup_primitive [OF assms(1), of k] assms(2)
  by (simp add: interp_def or_value_def primitive_to_string)

lemma concat_all_returns:
  "list_all (\<lambda>p. \<exists>s. p = Inr s) ps \<Longrightarrow> \<exists>t. concat_all ps = Inr t"
  by (induction ps) auto

lemma status_value:
  "map_of kvs ''simState'' = Some (JNum n)
     \<Longrightarrow> or_value (get (JObj kvs) ''simState'') (JNum 0) = Inr (JNum n)"
  by (simp add: or_value_def)

lemma getStateName_number:
  "getStateName (JNum n) =
     Inr (case map_of stateLabels (show_int n) of
            Some label \<Rightarrow> label
          | None \<Rightarrow> ''Unknown ('' @ show_int n @ '')'')"
  by (simp add: getStateName_def)

lemma show_int_inject: "show_int a = show_int b \<Longrightarrow> a = b"
  by (metis parseInt_show_int option.inject)

lemma show_int_codes:
  "show_int 2 = ''2''" "show_int 3 = ''3''" "show_int 4 = ''4''" "show_int 5 = ''5''"
  "show_int 6 = ''6''" "show_int 7 = ''7''" "show_int 8 = ''8''" "show_int 10 = ''10''"
  "show_int 11 = ''11''"
  by (simp_all add: show_int_def show_digits.simps)

lemma unmapped_code:
  assumes "n \<notin> {2, 3, 4, 5, 6, 7, 8, 10, 11}"
  shows "map_of stateLabels (show_int n) = None"
proof -
  have keys: "map fst stateLabels = map show_int [2, 3, 4, 5, 6, 7, 8, 10, 11]"
    by (simp add: stateLabels_def show_int_codes)
  have "inj show_int"
    by (rule injI) (rule show_int_inject)
  then have "show_int n \<in> show_int ` set [2, 3, 4, 5, 6, 7, 8, 10, 11]
      \<longleftrightarrow> n \<in> set [2, 3, 4, 5, 6, 7, 8, 10, 11]"
    by (rule inj_image_mem_iff)
  with assms have "show_int n \<notin> set (map fst stateLabels)"
    unfolding keys by simp
  then show ?thesis
    by (simp add: map_of_eq_None_iff)
qed

lemma data_usage_primitive:
  assumes "list_all (\<lambda>kv. primitive (snd kv)) kvs"
  shows "\<exists>v. data_usage (JObj kvs) = Inr v \<and> primitive v"
  using lookup_primitive [OF assms, of "''usedDataOfCurrentPeriod''"]
  by (auto simp: data_usage_def or_value_def primitive_def split: json.splits)

lemma entry_returns:
  assumes "list_all (\<lambda>kv. primitive (snd kv)) kvs"
    and "map_of kvs ''simState'' = Some (JNum n)"
    and "stateName cmp = getStateName"
  shows "\<exists>t. sim_entry cmp (JObj kvs) index = Inr t"
  unfolding sim_entry_def
  by (rule concat_all_returns)
    (simp add: lit_def field_returns [OF assms(1)] primitive_def status_value [OF assms(2)]
      assms(3) getStateName_number del: get.simps)

lemma detail_returns:
  assumes "list_all (\<lambda>kv. primitive (snd kv)) kvs"
    and "map_of kvs ''simState'' = Some (JNum n)"
    and "stateName cmp = getStateName"
    and "\<forall>v. primitive v \<longrightarrow> (\<exists>s. formatDataUsage cmp v = Inr s)"
    and "get response ''data'' = Inr (JObj kvs)"
  shows "\<exists>t. sim_detail_success cmp response = Inr t"
proof -
  from data_usage_primitive [OF assms(1)] assms(4)
  have usage: "\<exists>s. and_then (data_usage (JObj kvs)) (formatDataUsage cmp) = Inr s"
    by auto
  show ?thesis
    unfolding sim_detail_success_def assms(5) and_then_Inr
    by (rule concat_all_returns)
      (simp add: lit_def field_returns [OF assms(1)] primitive_def status_value [OF assms(2)]
        assms(3) getStateName_number usage del: get.simps)
qed

lemma entry_line:
  "\<lbrakk>map_of kvs ''simState'' = Some (JNum n); stateName cmp = getStateName;
    getStateName (JNum n) = Inr label; sim_entry cmp (JObj kvs) index = Inr t\<rbrakk>
   \<Longrightarrow> str_includes t (''   '' @ tee @ '' Status: '' @ label @ ''\<newline>'')"
  unfolding sim_entry_def
  apply (erule concat_all_slice [where n = 3 and k = 9])
  apply (simp add: lit_def status_value del: get.simps)
  done

lemma detail_line:
  "\<lbrakk>map_of kvs ''simState'' = Some (JNum n); stateName cmp = getStateName;
    getStateName (JNum n) = Inr label; get response ''data'' = Inr (JObj kvs);
    sim_detail_success cmp response = Inr t\<rbrakk>
   \<Longrightarrow> str_includes t (tee @ '' Status: '' @ label @ ''\<newline>'')"
  unfolding sim_detail_success_def
  apply (simp only: and_then_Inr)
  apply (erule concat_all_slice [where n = 3 and k = 22])
  apply (simp add: lit_def status_value del: get.simps)
  done

lemma entry_rendered:
  assumes "map_of kvs ''simState'' = Some (JNum n)" and "stateName cmp = getStateName"
    and "getStateName (JNum n) = Inr label"
    and "list_all (\<lambda>kv. primitive (snd kv)) kvs"
  shows "\<exists>t. sim_entry cmp (JObj kvs) index = Inr t
           \<and> str_includes t (''   '' @ tee @ '' Status: '' @ label @ ''\<newline>'')"
  using entry_returns [OF assms(4,1,2), of index] entry_line [OF assms(1,2,3)] by blast

lemma detail_handler:
  assumes "querySimDetail cmp iccid = Inr response" and "code_is_200 response"
  shows "query_sim_detail cmp iccid =
           (case sim_detail_success cmp response of
              Inr result \<Rightarrow> text_result result
            | Inl error \<Rightarrow> text_result (cross_mark @ '' Failed to query SIM details: ''
                            @ error_message error))"
proof -
  from assms have "query_sim_detail_body cmp iccid = sim_detail_success cmp response"
    unfolding query_sim_detail_body_def by (intro strict_policy_success)
  then show ?thesis by (simp add: query_sim_detail_def)
qed

lemma detail_rendered:
  assumes "map_of kvs ''simState'' = Some (JNum n)" and "stateName cmp = getStateName"
    and "getStateName (JNum n) = Inr label"
    and "querySimDetail cmp iccid = Inr response" and "code_is_200 response"
    and "get response ''data'' = Inr (JObj kvs)"
    and "list_all (\<lambda>kv. primitive (snd kv)) kvs"
    and "\<forall>v. primitive v \<longrightarrow> (\<exists>s. formatDataUsage cmp v = Inr s)"
  shows "\<exists>t. query_sim_detail cmp iccid = text_result t
           \<and> str_includes t (tee @ '' Status: '' @ label @ ''\<newline>'')"
proof -
  from detail_returns [OF assms(7,1,2,8,6)]
  obtain t where t: "sim_detail_success cmp response = Inr t" by blast
  with detail_handler [OF assms(4,5)] have "query_sim_detail cmp iccid = text_result t"
    by simp
  with detail_line [OF assms(1,2,3,6) t] show ?thesis by blast
qed



subsection \<open>Data usage given as a string\<close>

lemma data_usage_decimal:
  "data_usage (JObj ((''usedDataOfCurrentPeriod'', JStr (show_int n)) # entries)) = Inr (JNum n)"
  "data_usage (JObj ((''usedDataOfCurrentPeriod'', JNum n) # entries)) = Inr (JNum n)"
  by (simp_all add: data_usage_def or_value_def parseInt_show_int show_int_not_empty)

lemma show_int_2048: "show_int 2048 = ''2048''"
  by (simp add: show_int_def show_digits.simps)

lemma sim_detail_success_decimal:
  "sim_detail_success cmp
     (JObj ((''code'', JNum 200)
        # (''data'', JObj ((''usedDataOfCurrentPeriod'', JStr (show_int n)) # entries)) # rest))
   = sim_detail_success cmp
     (JObj ((''code'', JNum 200)
        # (''data'', JObj ((''usedDataOfCurrentPeriod'', JNum n) # entries)) # rest))"
  unfolding sim_detail_success_def
  by (simp add: data_usage_decimal del: concat_all.simps)

lemma query_sim_detail_decimal:
  "query_sim_detail
     (cmp\<lparr>querySimDetail := \<lambda>iccid. Inr (JObj ((''code'', JNum 200)
        # (''data'', JObj ((''usedDataOfCurrentPeriod'', JStr (show_int n)) # entries)) # rest))\<rparr>)
     iccid
   = query_sim_detail
     (cmp\<lparr>querySimDetail := \<lambda>iccid. Inr (JObj ((''code'', JNum 200)
        # (''data'', JObj ((''usedDataOfCurrentPeriod'', JNum n) # entries)) # rest))\<rparr>)
     iccid"
  using sim_detail_success_decimal [where n = n and entries = entries and rest = rest]
  by (simp add: query_sim_detail_def query_sim_detail_body_def sim_detail_success_def)

text \<open>
  C8: for a successful response (code 200), \<open>query_sim_detail\<close> returns the same result
  whether \<open>usedDataOfCurrentPeriod\<close> of the record is the string \<open>"2048"\<close> or the
  integer 2048, the rest of the response being the same: in both cases
  \<open>formatDataUsage\<close> is applied to the number 2048. The same holds for every integer
  and its decimal notation.
\<close>

theorem usage_string_and_integer_alike:
  "query_sim_detail
     (cmp\<lparr>querySimDetail := \<lambda>iccid. Inr (JObj ((''code'', JNum 200)
        # (''data'', JObj ((''usedDataOfCurrentPeriod'', JStr ''2048'') # entries)) # rest))\<rparr>)
     iccid
   = query_sim_detail
     (cmp\<lparr>querySimDetail := \<lambda>iccid. Inr (JObj ((''code'', JNum 200)
        # (''data'', JObj ((''usedDataOfCurrentPeriod'', JNum 2048) # entries)) # rest))\<rparr>)
     iccid
   \<and> data_usage (JObj ((''usedDataOfCurrentPeriod'', JStr ''2048'') # entries)) = Inr (JNum 2048)
   \<and> data_usage (JObj ((''usedDataOfCurrentPeriod'', JNum 2048) # entries)) = Inr (JNum 2048)
   \<and> query_sim_detail
     (cmp\<lparr>querySimDetail := \<lambda>iccid. Inr (JObj ((''code'', JNum 200)
        # (''data'', JObj ((''usedDataOfCurrentPeriod'', JStr (show_int n)) # entries)) # rest))\<rparr>)
     iccid
   = query_sim_detail
     (cmp\<lparr>querySimDetail := \<lambda>iccid. Inr (JObj ((''code'', JNum 200)
        # (''data'', JObj ((''usedDataOfCurrentPeriod'', JNum n) # entries)) # rest))\<rparr>)
     iccid"
  using query_sim_detail_decimal
      [where cmp = cmp and n = 2048 and entries = entries and rest = rest and iccid = iccid]
    query_sim_detail_decimal
      [where cmp = cmp and n = n and entries = entries and rest = rest and iccid = iccid]
    data_usage_decimal [where n = 2048 and entries = entries]
  by (simp add: show_int_2048)

theorem usage_string_and_integer_alike_witness:
  "query_sim_detail
     ((answering JNull)\<lparr>querySimDetail := \<lambda>iccid. Inr (JObj [(''code'', JNum 200),
        (''data'', JObj [(''usedDataOfCurrentPeriod'', JStr ''2048''),
                         (''iccid'', JStr ''8986'')])])\<rparr>)
     ''8986''
   = text_result
      (mobile_phone @ '' SIM Card Details\<newline>''
       @ tee @ '' SIM ID: N/A\<newline>''
       @ tee @ '' ICCID: 8986\<newline>''
       @ tee @ '' MSISDN: N/A\<newline>''
       @ tee @ '' IMEI: N/A\<newline>''
       @ tee @ '' IMSI: N/A\<newline>''
       @ tee @ '' Enterprise: N/A\<newline>''
       @ tee @ '' Label: None\<newline>''
       @ tee @ '' Status: Unknown (0)\<newline>''
       @ tee @ '' State Change Reason: N/A\<newline>''
       @ tee @ '' Country/Region: N/A\<newline>''
       @ tee @ '' Operator Network: N/A\<newline>''
       @ tee @ '' Enterprise Data Plan: N/A\<newline>''
       @ tee @ '' Network Type: N/A\<newline>''
       @ tee @ '' Card Type: N/A\<newline>''
       @ tee @ '' APN: N/A\<newline>''
       @ tee @ '' RAT: N/A\<newline>''
       @ tee @ '' Initial Time: N/A\<newline>''
       @ tee @ '' Activation Time: N/A\<newline>''
       @ tee @ '' Expiration Time: N/A\<newline>''
       @ tee @ '' Last Session Time: N/A\<newline>''
       @ corner @ '' Current Period Data Usage: 2048 B\<newline>'')"
proof -
  have digits: "show_int 0 = ''0''"
    by (simp add: show_int_def show_digits.simps)
  have "query_sim_detail
     ((answering JNull)\<lparr>querySimDetail := \<lambda>iccid. Inr (JObj [(''code'', JNum 200),
        (''data'', JObj [(''usedDataOfCurrentPeriod'', JNum 2048),
                         (''iccid'', JStr ''8986'')])])\<rparr>)
     ''8986''
   = text_result
      (mobile_phone @ '' SIM Card Details\<newline>''
       @ tee @ '' SIM ID: N/A\<newline>''
       @ tee @ '' ICCID: 8986\<newline>''
       @ tee @ '' MSISDN: N/A\<newline>''
       @ tee @ '' IMEI: N/A\<newline>''
       @ tee @ '' IMSI: N/A\<newline>''
       @ tee @ '' Enterprise: N/A\<newline>''
       @ tee @ '' Label: None\<newline>''
       @ tee @ '' Status: Unknown (0)\<newline>''
       @ tee @ '' State Change Reason: N/A\<newline>''
       @ tee @ '' Country/Region: N/A\<newline>''
       @ tee @ '' Operator Network: N/A\<newline>''
       @ tee @ '' Enterprise Data Plan: N/A\<newline>''
       @ tee @ '' Network Type: N/A\<newline>''
       @ tee @ '' Card Type: N/A\<newline>''
       @ tee @ '' APN: N/A\<newline>''
       @ tee @ '' RAT: N/A\<newline>''
       @ tee @ '' Initial Time: N/A\<newline>''
       @ tee @ '' Activation Time: N/A\<newline>''
       @ tee @ '' Expiration Time: N/A\<newline>''
       @ tee @ '' Last Session Time: N/A\<newline>''
       @ corner @ '' Current Period Data Usage: 2048 B\<newline>'')"
    by (simp add: query_sim_detail_def query_sim_detail_body_def sim_detail_success_def
        answering_def getStateName_def stateLabels_def data_usage_def interp_def lit_def
        or_value_def digits show_int_2048)
  with usage_string_and_integer_alike
    [where cmp = "answering JNull" and entries = "[(''iccid'', JStr ''8986'')]" and rest = "[]"
      and iccid = "''8986''" and n = 0]
  show ?thesis by simp
qed

section \<open>Properties of the initialization\<close>

text \<open>
  C5: when the API key or the API secret is undefined or empty, \<open>init\<close> writes one
  error line to the console and throws; it constructs no adapter and registers no tool.
  When both are set, \<open>init\<close> returns, it has constructed exactly one adapter, from the
  key, the secret and the endpoint (the default one when none is configured), and has
  registered the four tools.
\<close>

theorem init_fails_fast:
  "(CMP_API_KEY env = None \<or> CMP_API_KEY env = Some []
      \<or> CMP_API_SECRET env = None \<or> CMP_API_SECRET env = Some [] \<longrightarrow>
      init env =
        ([ConsoleError [cross_mark @ '' Missing CMP API credentials'']],
         Inl (Error (''Missing required environment variables: CMP_API_KEY and ''
                     @ ''CMP_API_SECRET must be set in Cloudflare Workers.'')))
      \<and> constructed (fst (init env)) = []
      \<and> registered (fst (init env)) = [])
   \<and> (CMP_API_KEY env = Some key \<and> key \<noteq> []
      \<and> CMP_API_SECRET env = Some secret \<and> secret \<noteq> [] \<longrightarrow>
      snd (init env) = Inr ()
      \<and> constructed (fst (init env)) =
          [(key, secret,
            or_else (CMP_API_ENDPOINT env) ''https://cmp.acceleronix.io/gateway/openapi'')]
      \<and> registered (fst (init env)) =
          [''query_sim_list'', ''query_sim_detail'', ''query_sim_usage'', ''query_euicc_list''])"
  by (auto simp: init_def Let_def split: option.splits)

theorem init_fails_fast_witness:
  "init \<lparr>CMP_API_KEY = Some ''key'', CMP_API_SECRET = None, CMP_API_ENDPOINT = None\<rparr>
     = ([ConsoleError [cross_mark @ '' Missing CMP API credentials'']],
        Inl (Error (''Missing required environment variables: CMP_API_KEY and ''
                    @ ''CMP_API_SECRET must be set in Cloudflare Workers.'')))
   \<and> snd (init \<lparr>CMP_API_KEY = Some ''key'', CMP_API_SECRET = Some ''secret'',
                  CMP_API_ENDPOINT = None\<rparr>) = Inr ()
   \<and> constructed (fst (init \<lparr>CMP_API_KEY = Some ''key'', CMP_API_SECRET = Some ''secret'',
                               CMP_API_ENDPOINT = None\<rparr>))
     = [(''key'', ''secret'', ''https://cmp.acceleronix.io/gateway/openapi'')]
   \<and> registered (fst (init \<lparr>CMP_API_KEY = Some ''key'', CMP_API_SECRET = Some ''secret'',
                              CMP_API_ENDPOINT = None\<rparr>))
     = [''query_sim_list'', ''query_sim_detail'', ''query_sim_usage'', ''query_euicc_list'']"
  using init_fails_fast
      [of "\<lparr>CMP_API_KEY = Some ''key'', CMP_API_SECRET = None, CMP_API_ENDPOINT = None\<rparr>"
        "''key''" "''secret''"]
    init_fails_fast
      [of "\<lparr>CMP_API_KEY = Some ''key'', CMP_API_SECRET = Some ''secret'',
            CMP_API_ENDPOINT = None\<rparr>" "''key''" "''secret''"]
  by (simp add: or_else_def)



end
